theory Spec2Isabelle
  imports Complex_Main "HOL-Library.Multiset"
begin

section \<open>Realm selection of the explorer kernel (shared/dao/index.ts)\<close>

text \<open>
  The development embeds the functions of \<^verbatim>\<open>kernel/packages/shared/dao/index.ts\<close>.
  JavaScript numbers are doubles. User counts are doubles with a natural value
  (\<open>nat\<close>), elapsed milliseconds doubles with an integer value (\<open>int\<close>), scores are
  \<open>real\<close>. Additions of user counts round as the addition of doubles does
  (\<open>addDouble\<close>); the cosine of \<open>layerScore\<close> and the differences the comparator
  takes are exact in the model. An absent optional field is \<open>None\<close>.
\<close>

subsection \<open>Addition of doubles with natural values\<close>

text \<open>The number of binary digits of a natural number.\<close>

fun bitLength :: "nat \<Rightarrow> nat" where
  "bitLength n = (if n = 0 then 0 else Suc (bitLength (n div 2)))"

declare bitLength.simps [simp del]

text \<open>
  The double nearest to a natural number (below \<open>2 ^ 1024\<close>, where doubles end): the
  number itself when it has at most 53 binary digits, else the nearest multiple of the
  unit in the last of its 53 leading digits, a tie going to the even multiple.
\<close>

definition roundToDouble :: "nat \<Rightarrow> nat" where
  "roundToDouble n =
     (if bitLength n \<le> 53 then n
      else let u = 2 ^ (bitLength n - 53); q = n div u; r = n mod u
           in if 2 * r < u then q * u
              else if u < 2 * r then (q + 1) * u
              else if even q then q * u else (q + 1) * u)"

text \<open>\<^verbatim>\<open>a + b\<close> on two such doubles.\<close>

definition addDouble :: "nat \<Rightarrow> nat \<Rightarrow> nat" where
  "addDouble a b = roundToDouble (a + b)"

subsection \<open>Data model (shared/dao/types)\<close>

datatype ServerConnectionStatus = OK | UNREACHABLE

text \<open>A parcel is a pair of grid coordinates (\<^verbatim>\<open>ParcelArray\<close>).\<close>

type_synonym ParcelArray = "int \<times> int"

record Layer =
  name :: string
  usersCount :: nat
  maxUsers :: "nat option"
  usersParcels :: "ParcelArray list option"

text \<open>
  \<^verbatim>\<open>catalystName\<close>, \<^verbatim>\<open>domain\<close> and \<^verbatim>\<open>lighthouseVersion\<close> are the fields a
  candidate shares with the realm built from it.
\<close>

record CatalystId =
  catalystName :: string
  domain :: string
  lighthouseVersion :: string

record Realm = CatalystId +
  layer :: "string option"

text \<open>
  The tag \<^verbatim>\<open>type: 'layer-based' | 'islands-based'\<close> with the field that comes with it
  (\<^verbatim>\<open>layer\<close>, respectively \<^verbatim>\<open>usersCount\<close>).
\<close>

datatype CandidateType = LayerBased Layer | IslandsBased nat

record Candidate = CatalystId +
  status :: ServerConnectionStatus
  elapsed :: int
  catalystVersion :: string
  score :: real
  type :: CandidateType

subsection \<open>Scorer\<close>

definition v :: real where
  "v = 50"

text \<open>
  \<^verbatim>\<open>const layerScore = ({ usersCount, maxUsers = 50 }: Layer) => ...\<close>: the default
  applies when the field is absent. \<^verbatim>\<open>maxUsers ? maxUsers : 50\<close> replaces a zero by 50.
\<close>

definition layerScore :: "Layer \<Rightarrow> real" where
  "layerScore l =
     (let uc = usersCount l;
          mu = (case maxUsers l of None \<Rightarrow> 50 | Some m \<Rightarrow> m)
      in if uc = 0 then - v
         else if uc \<ge> mu then - 10 * v
         else
           let phase = - pi / 1.8;
               period = pi / (0.67 * (if mu \<noteq> 0 then real mu else 50))
           in v + v * cos (phase + period * real uc))"

text \<open>\<^verbatim>\<open>100 + usersCount\<close> is an addition of doubles.\<close>

definition islandsScore :: "nat \<Rightarrow> real" where
  "islandsScore uc = (if uc = 0 then - v + 1 else real (addDouble 100 uc))"

text \<open>The capacity \<^verbatim>\<open>layerScore\<close> compares with: \<^verbatim>\<open>maxUsers\<close>, 50 when absent.\<close>

abbreviation maxUsersOr50 :: "Layer \<Rightarrow> nat" where
  "maxUsersOr50 l \<equiv> (case maxUsers l of None \<Rightarrow> 50 | Some m \<Rightarrow> m)"


subsection \<open>Selector\<close>

text \<open>
  What the code raises: \<^verbatim>\<open>throw new Error(msg)\<close>, and the \<^verbatim>\<open>TypeError\<close> of reading a
  property of \<^verbatim>\<open>undefined\<close>.
\<close>

datatype js_error = Error string | TypeError

definition candidateUsers :: "Candidate \<Rightarrow> nat" where
  "candidateUsers candidate =
     (case type candidate of LayerBased l \<Rightarrow> usersCount l | IslandsBased n \<Rightarrow> n)"

definition candidateToRealm :: "Candidate \<Rightarrow> Realm" where
  "candidateToRealm candidate =
     \<lparr>catalystName = catalystName candidate,
      domain = domain candidate,
      lighthouseVersion = lighthouseVersion candidate,
      layer = (case type candidate of LayerBased l \<Rightarrow> Some (name l) | IslandsBased n \<Rightarrow> None)\<rparr>"

text \<open>
  \<^verbatim>\<open>usersByDomain\<close> is the object literal \<^verbatim>\<open>{}\<close> used as a dictionary. A lookup
  also finds the properties inherited from \<^verbatim>\<open>Object.prototype\<close>. What is found under a
  key is a number, or a value that is no number: an inherited function (the prototype
  object itself under \<^verbatim>\<open>__proto__\<close>), or the string that \<^verbatim>\<open>+=\<close> makes of it. A value
  of the second kind is truthy, and a difference with it is \<^verbatim>\<open>NaN\<close>.
\<close>

datatype entry = Number nat | NotNumeric

definition objectPrototypeKeys :: "string list" where
  "objectPrototypeKeys =
     [''constructor'', ''__proto__'', ''hasOwnProperty'', ''isPrototypeOf'',
      ''propertyIsEnumerable'', ''toLocaleString'', ''toString'', ''valueOf'',
      ''__defineGetter__'', ''__defineSetter__'', ''__lookupGetter__'', ''__lookupSetter__'']"

definition emptyObject :: "string \<rightharpoonup> entry" where
  "emptyObject key = (if key \<in> set objectPrototypeKeys then Some NotNumeric else None)"

text \<open>
  One round of the \<^verbatim>\<open>forEach\<close> that fills \<^verbatim>\<open>usersByDomain\<close>: an absent or zero entry
  is set to 0, then the candidate's users are added with \<^verbatim>\<open>+=\<close>, an addition of doubles
  on a number and a concatenation of strings on anything else. (An assignment to
  \<^verbatim>\<open>__proto__\<close> of a string is ignored; the lookup finds the prototype object, no number
  either way.)
\<close>

definition addUsers :: "(string \<rightharpoonup> entry) \<Rightarrow> Candidate \<Rightarrow> (string \<rightharpoonup> entry)" where
  "addUsers m it =
     (let m' = (case m (domain it) of
                  None \<Rightarrow> m(domain it \<mapsto> Number 0)
                | Some (Number n) \<Rightarrow> if n = 0 then m(domain it \<mapsto> Number 0) else m
                | Some NotNumeric \<Rightarrow> m)
      in case m' (domain it) of
           None \<Rightarrow> m'
         | Some (Number n) \<Rightarrow> m'(domain it \<mapsto> Number (addDouble n (candidateUsers it)))
         | Some NotNumeric \<Rightarrow> m'(domain it \<mapsto> NotNumeric))"

definition usersByDomain :: "Candidate list \<Rightarrow> (string \<rightharpoonup> entry)" where
  "usersByDomain candidates = foldl addUsers emptyObject candidates"

text \<open>
  The filter of \<open>pickCatalystRealm\<close>. \<^verbatim>\<open>usersCount < maxUsers\<close> is false when
  \<^verbatim>\<open>maxUsers\<close> is absent. The preceding \<^verbatim>\<open>.filter((it) => it)\<close> keeps every element of
  a \<^verbatim>\<open>Candidate[]\<close>.
\<close>

definition selectable :: "Candidate \<Rightarrow> bool" where
  "selectable it =
     (status it = OK \<and>
      (case type it of
         IslandsBased n \<Rightarrow> True
       | LayerBased l \<Rightarrow> (case maxUsers l of None \<Rightarrow> False | Some m \<Rightarrow> usersCount l < m)))"

text \<open>
  The comparator passed to \<^verbatim>\<open>sort\<close>. Its value is a number or \<^verbatim>\<open>NaN\<close> (here
  \<open>None\<close>): \<^verbatim>\<open>usersDiff\<close> is \<^verbatim>\<open>NaN\<close> when a domain has no entry in
  \<^verbatim>\<open>usersByDomain\<close> or an entry that is no number, and \<^verbatim>\<open>NaN !== 0\<close> holds.
\<close>

definition comparator :: "(string \<rightharpoonup> entry) \<Rightarrow> Candidate \<Rightarrow> Candidate \<Rightarrow> real option" where
  "comparator byDomain c1 c2 =
     (let elapsedDiff = elapsed c1 - elapsed c2;
          usersDiff = (case (byDomain (domain c1), byDomain (domain c2)) of
                         (Some (Number u1), Some (Number u2)) \<Rightarrow> Some (int u1 - int u2)
                       | _ \<Rightarrow> None);
          scoreDiff = score c2 - score c1
      in if \<bar>elapsedDiff\<bar> > 1500 then Some (real_of_int elapsedDiff)
         else if scoreDiff \<noteq> 0 then Some scoreDiff
         else if usersDiff \<noteq> Some 0 then map_option real_of_int usersDiff
         else Some (real_of_int elapsedDiff))"

text \<open>
  \<^verbatim>\<open>Array.prototype.sort\<close> belongs to the JavaScript engine. Where the comparator is
  not a consistent ordering (the 1500 ms threshold is not transitive) the resulting order
  is implementation-defined, so \<open>pickCatalystRealm\<close> takes the sort as a parameter; the
  engine guarantees that the result is a rearrangement of the input.
\<close>

type_synonym 'a sorter = "('a \<Rightarrow> 'a \<Rightarrow> real option) \<Rightarrow> 'a list \<Rightarrow> 'a list"

definition rearranges :: "'a sorter \<Rightarrow> bool" where
  "rearranges sortImpl = (\<forall>cmp xs. mset (sortImpl cmp xs) = mset xs)"

text \<open>
  A stable insertion sort, used to evaluate examples: \<open>x\<close> goes before the first
  element it does not have to follow. A \<^verbatim>\<open>NaN\<close> from the comparator counts as 0.
\<close>

fun insertSorted :: "('a \<Rightarrow> 'a \<Rightarrow> real option) \<Rightarrow> 'a \<Rightarrow> 'a list \<Rightarrow> 'a list" where
  "insertSorted cmp x [] = [x]"
| "insertSorted cmp x (y # ys) =
     (if (case cmp x y of None \<Rightarrow> True | Some d \<Rightarrow> d \<le> 0) then x # y # ys
      else y # insertSorted cmp x ys)"

fun stableSort :: "'a sorter" where
  "stableSort cmp [] = []"
| "stableSort cmp (x # xs) = insertSorted cmp x (stableSort cmp xs)"

definition pickCatalystRealm :: "Candidate sorter \<Rightarrow> Candidate list \<Rightarrow> js_error + Realm" where
  "pickCatalystRealm sortImpl candidates =
     (let byDomain = usersByDomain candidates;
          sorted = sortImpl (comparator byDomain) (filter selectable candidates)
      in if length sorted = 0 \<and> length candidates > 0
         then Inl (Error ''No available realm found!'')
         else case sorted of
                [] \<Rightarrow> Inl TypeError
              | c # cs \<Rightarrow> Inr (candidateToRealm c))"

text \<open>
  The candidate \<^verbatim>\<open>sorted[0]\<close> the realm is built from, when there is one.
\<close>

definition pickedCandidate :: "Candidate sorter \<Rightarrow> Candidate list \<Rightarrow> Candidate option" where
  "pickedCandidate sortImpl candidates =
     (case sortImpl (comparator (usersByDomain candidates)) (filter selectable candidates) of
        [] \<Rightarrow> None
      | c # cs \<Rightarrow> Some c)"

text \<open>
  The sum of the user counts of the candidates of a domain: the users of the layer for a
  layer-based candidate, the users of the realm for an islands-based one.
\<close>

definition usersOfDomain :: "Candidate list \<Rightarrow> string \<Rightarrow> nat" where
  "usersOfDomain candidates d =
     (\<Sum>c \<leftarrow> filter (\<lambda>c. domain c = d) candidates.
        case type c of LayerBased l \<Rightarrow> usersCount l | IslandsBased n \<Rightarrow> n)"

text \<open>
  The order a comparator value asks for: a negative value puts the first argument first,
  a positive value the second.
\<close>

definition firstBefore :: "real option \<Rightarrow> bool" where
  "firstBefore r = (case r of None \<Rightarrow> False | Some d \<Rightarrow> d < 0)"

definition secondBefore :: "real option \<Rightarrow> bool" where
  "secondBefore r = (case r of None \<Rightarrow> False | Some d \<Rightarrow> d > 0)"

text \<open>
  A comparator orders a set of elements consistently: its value is never \<^verbatim>\<open>NaN\<close>,
  whenever it puts \<open>a\<close> before \<open>b\<close> it puts, asked the other way round, \<open>b\<close> after
  \<open>a\<close>, and ``not after'' is transitive. This is the consistent comparator of the
  language standard: its classes of equal elements are totally ordered.
\<close>

definition consistentOn :: "('a \<Rightarrow> 'a \<Rightarrow> real option) \<Rightarrow> 'a set \<Rightarrow> bool" where
  "consistentOn cmp S =
     ((\<forall>a \<in> S. \<forall>b \<in> S. cmp a b \<noteq> None) \<and>
      (\<forall>a \<in> S. \<forall>b \<in> S. firstBefore (cmp a b) \<longleftrightarrow> secondBefore (cmp b a)) \<and>
      (\<forall>a \<in> S. \<forall>b \<in> S. \<forall>c \<in> S.
         \<not> secondBefore (cmp a b) \<and> \<not> secondBefore (cmp b c) \<longrightarrow> \<not> secondBefore (cmp a c)))"

text \<open>
  What the language standard promises of \<^verbatim>\<open>Array.prototype.sort\<close>: the result is a
  rearrangement of the input, and when the comparator orders the elements consistently no
  element of the result is after a later one.
\<close>

definition sortsConsistently :: "'a sorter \<Rightarrow> bool" where
  "sortsConsistently sortImpl =
     (\<forall>cmp xs. mset (sortImpl cmp xs) = mset xs \<and>
        (consistentOn cmp (set xs) \<longrightarrow>
           sorted_wrt (\<lambda>a b. \<not> secondBefore (cmp a b)) (sortImpl cmp xs)))"

text \<open>
  A layer-based candidate whose layer is full: \<^verbatim>\<open>layer.usersCount >= layer.maxUsers\<close>
  (false when \<^verbatim>\<open>maxUsers\<close> is absent).
\<close>

definition isFullLayer :: "Candidate \<Rightarrow> bool" where
  "isFullLayer c =
     (case type c of
        IslandsBased n \<Rightarrow> False
      | LayerBased l \<Rightarrow> (case maxUsers l of None \<Rightarrow> False | Some m \<Rightarrow> usersCount l \<ge> m))"

text \<open>
  The candidates \<^verbatim>\<open>fetchCatalystStatuses\<close> builds from a status payload
  (\<^verbatim>\<open>buildLayerCandidate\<close>, \<^verbatim>\<open>buildIslandsCandidate\<close> over \<^verbatim>\<open>buildBaseCandidate\<close>):
  the score is computed from the layer, respectively from the user count.
\<close>

definition buildLayerCandidate ::
  "string \<Rightarrow> string \<Rightarrow> ServerConnectionStatus \<Rightarrow> int \<Rightarrow> string \<Rightarrow> string \<Rightarrow> Layer \<Rightarrow> Candidate" where
  "buildLayerCandidate resultName d st el version catVersion l =
     \<lparr>catalystName = resultName, domain = d, lighthouseVersion = version,
      status = st, elapsed = el, catalystVersion = catVersion,
      score = layerScore l, type = LayerBased l\<rparr>"

definition buildIslandsCandidate ::
  "string \<Rightarrow> string \<Rightarrow> ServerConnectionStatus \<Rightarrow> int \<Rightarrow> string \<Rightarrow> string \<Rightarrow> nat \<Rightarrow> Candidate" where
  "buildIslandsCandidate resultName d st el version catVersion uc =
     \<lparr>catalystName = resultName, domain = d, lighthouseVersion = version,
      status = st, elapsed = el, catalystVersion = catVersion,
      score = islandsScore uc, type = IslandsBased uc\<rparr>"

text \<open>
  Example candidates: an empty layer on domain A, an islands realm with 5 users on
  domain B, a full layer on domain C; then a second (full) layer on domain A, two more
  empty layers on domains E and F, and a slow islands realm on domain G.
\<close>

definition candA :: Candidate where
  "candA = buildLayerCandidate ''a'' ''A'' OK 100 ''1.0'' ''2.0''
     \<lparr>name = ''L1'', usersCount = 0, maxUsers = Some 50, usersParcels = None\<rparr>"

definition candB :: Candidate where
  "candB = buildIslandsCandidate ''b'' ''B'' OK 120 ''1.0'' ''2.0'' 5"

definition candC :: Candidate where
  "candC = buildLayerCandidate ''c'' ''C'' OK 50 ''1.0'' ''2.0''
     \<lparr>name = ''L2'', usersCount = 50, maxUsers = Some 50, usersParcels = None\<rparr>"

definition candA2 :: Candidate where
  "candA2 = buildLayerCandidate ''a'' ''A'' OK 100 ''1.0'' ''2.0''
     \<lparr>name = ''L3'', usersCount = 50, maxUsers = Some 50, usersParcels = None\<rparr>"

definition candE :: Candidate where
  "candE = buildLayerCandidate ''e'' ''E'' OK 110 ''1.0'' ''2.0''
     \<lparr>name = ''L1'', usersCount = 0, maxUsers = Some 50, usersParcels = None\<rparr>"

definition candF :: Candidate where
  "candF = buildLayerCandidate ''f'' ''F'' OK 105 ''1.0'' ''2.0''
     \<lparr>name = ''L1'', usersCount = 0, maxUsers = Some 50, usersParcels = None\<rparr>"

definition candG :: Candidate where
  "candG = buildIslandsCandidate ''g'' ''G'' OK 2000 ''1.0'' ''2.0'' 9"

text \<open>
  An empty layer on a domain named as a property of \<^verbatim>\<open>Object.prototype\<close>, and three
  islands realms whose elapsed times are 1000 ms apart.
\<close>

definition candProto :: Candidate where
  "candProto = buildLayerCandidate ''k'' ''constructor'' OK 100 ''1.0'' ''2.0''
     \<lparr>name = ''L1'', usersCount = 0, maxUsers = Some 50, usersParcels = None\<rparr>"

definition candX :: Candidate where
  "candX = buildIslandsCandidate ''x'' ''X'' OK 0 ''1.0'' ''2.0'' 1"

definition candY :: Candidate where
  "candY = buildIslandsCandidate ''y'' ''Y'' OK 1000 ''1.0'' ''2.0'' 2"

definition candZ :: Candidate where
  "candZ = buildIslandsCandidate ''z'' ''Z'' OK 2000 ''1.0'' ''2.0'' 3"

subsection \<open>Realm strings and the published state\<close>

text \<open>
  \<^verbatim>\<open>String.prototype.split\<close> with a one-character separator: every occurrence of the
  separator ends a part, so the result has one part more than the string has separators
  (the last pattern of the \<open>case\<close> covers no value that \<open>splitOn\<close> returns).
\<close>

fun splitOn :: "char \<Rightarrow> string \<Rightarrow> string list" where
  "splitOn sep [] = [Nil]"
| "splitOn sep (c # cs) =
     (if c = sep then [] # splitOn sep cs
      else case splitOn sep cs of
             p # ps \<Rightarrow> (c # p) # ps
           | [] \<Rightarrow> [c # Nil])"

definition realmForLayer :: "string \<Rightarrow> string \<Rightarrow> Candidate list \<Rightarrow> Realm option" where
  "realmForLayer catName layerName candidates =
     (case find (\<lambda>it. case type it of
                         LayerBased l \<Rightarrow> catalystName it = catName \<and> name l = layerName
                       | IslandsBased n \<Rightarrow> False) candidates of
        None \<Rightarrow> None
      | Some candidate \<Rightarrow> Some (candidateToRealm candidate))"

definition realmFor :: "string \<Rightarrow> Candidate list \<Rightarrow> Realm option" where
  "realmFor catName candidates =
     (case find (\<lambda>it. case type it of
                         IslandsBased n \<Rightarrow> catalystName it = catName
                       | LayerBased l \<Rightarrow> False) candidates of
        None \<Rightarrow> None
      | Some candidate \<Rightarrow> Some (candidateToRealm candidate))"

text \<open>
  \<^verbatim>\<open>parts.length === 2\<close> selects the layer lookup; any other number of parts the islands
  lookup on \<^verbatim>\<open>parts[0]\<close>.
\<close>

definition getRealmFromString :: "string \<Rightarrow> Candidate list \<Rightarrow> Realm option" where
  "getRealmFromString realmString candidates =
     (case splitOn CHR ''-'' realmString of
        [p0, p1] \<Rightarrow> realmForLayer p0 p1 candidates
      | p0 # ps \<Rightarrow> realmFor p0 candidates
      | [] \<Rightarrow> None)"

text \<open>
  The canonical string of a realm in the spec's words (the RealmString encoding):
  \<^verbatim>\<open>"<catalystName>"\<close> for an islands-based realm and \<^verbatim>\<open>"<catalystName>-<layerName>"\<close>
  for a layer-based one, the layer segment being omitted when the layer is absent. This
  is the encoding that \<open>getRealmFromString\<close> is to invert; the parser does not call the
  formatter of the code (\<^verbatim>\<open>realmToString\<close>, imported from \<^verbatim>\<open>utils/realmToString\<close>,
  which is not among the sources).
\<close>

definition canonicalRealmString :: "Realm \<Rightarrow> string" where
  "canonicalRealmString r =
     (case layer r of None \<Rightarrow> catalystName r | Some l \<Rightarrow> catalystName r @ ''-'' @ l)"

text \<open>
  The state the module reads through its selectors (\<^verbatim>\<open>getRealm\<close>,
  \<^verbatim>\<open>getAllCatalystCandidates\<close>, \<^verbatim>\<open>getCatalystRealmCommsStatus\<close>); the fields carry the
  selectors' names. The connection statuses are those the spec lists.
\<close>

datatype CommsStatus = StatusConnecting | StatusConnected | StatusError | StatusRealmFull

record RootDaoState =
  getRealm :: "Realm option"
  getAllCatalystCandidates :: "Candidate list"
  getCatalystRealmCommsStatus :: CommsStatus

datatype DaoAction = setCatalystRealm Realm | setCatalystCandidates "Candidate list"

text \<open>
  The store: its state, the reducer it was created with (the reducer of \<^verbatim>\<open>shared/dao\<close>
  is not among the sources, so it is a component of the store and the results hold for
  every reducer), and the actions dispatched to it so far, oldest first.
\<close>

record Store =
  getState :: RootDaoState
  reducer :: "RootDaoState \<Rightarrow> DaoAction \<Rightarrow> RootDaoState"
  dispatched :: "DaoAction list"

definition dispatch :: "DaoAction \<Rightarrow> Store \<Rightarrow> Store" where
  "dispatch a store =
     store\<lparr>getState := reducer store (getState store) a, dispatched := dispatched store @ [a]\<rparr>"

text \<open>
  A reducer for the examples: a published realm becomes the current realm, published
  candidates replace the list of candidates.
\<close>

fun exampleReducer :: "RootDaoState \<Rightarrow> DaoAction \<Rightarrow> RootDaoState" where
  "exampleReducer s (setCatalystRealm r) = s\<lparr>getRealm := Some r\<rparr>"
| "exampleReducer s (setCatalystCandidates cs) = s\<lparr>getAllCatalystCandidates := cs\<rparr>"

text \<open>\<open>changeRealm\<close> returns the realm found, if any, and the store it leaves.\<close>

definition changeRealm :: "string \<Rightarrow> Store \<Rightarrow> Realm option \<times> Store" where
  "changeRealm realmString store =
     (let candidates = getAllCatalystCandidates (getState store);
          realm = getRealmFromString realmString candidates
      in case realm of
           Some r \<Rightarrow> (realm, dispatch (setCatalystRealm r) store)
         | None \<Rightarrow> (realm, store))"

text \<open>
  A candidate matches a realm string: for a string of two parts, a layer-based
  candidate with the first part as \<^verbatim>\<open>catalystName\<close> and the second as layer name; for a
  string that has not two parts, an islands-based candidate with the first part as
  \<^verbatim>\<open>catalystName\<close>.
\<close>

definition matchesRealmString :: "string \<Rightarrow> Candidate \<Rightarrow> bool" where
  "matchesRealmString realmString c =
     (case splitOn CHR ''-'' realmString of
        [p0, p1] \<Rightarrow>
          (case type c of
             LayerBased l \<Rightarrow> catalystName c = p0 \<and> name l = p1
           | IslandsBased n \<Rightarrow> False)
      | p0 # ps \<Rightarrow>
          (case type c of
             IslandsBased n \<Rightarrow> catalystName c = p0
           | LayerBased l \<Rightarrow> False)
      | [] \<Rightarrow> False)"

text \<open>
  Two candidates of the same shape with the same \<^verbatim>\<open>catalystName\<close> and, when layer-based,
  the same layer name: the lookups by name cannot tell them apart.
\<close>

definition sameName :: "Candidate \<Rightarrow> Candidate \<Rightarrow> bool" where
  "sameName c c' =
     (catalystName c = catalystName c' \<and>
      (case (type c, type c') of
         (LayerBased l, LayerBased l') \<Rightarrow> name l = name l'
       | (IslandsBased n, IslandsBased n') \<Rightarrow> True
       | _ \<Rightarrow> False))"

text \<open>Example candidates whose names contain the separator, and a namesake of \<open>candB\<close>.\<close>

definition candHyphenLayer :: Candidate where
  "candHyphenLayer = buildLayerCandidate ''x'' ''X'' OK 100 ''1.0'' ''2.0''
     \<lparr>name = ''a-b'', usersCount = 3, maxUsers = Some 50, usersParcels = None\<rparr>"

definition candHyphenName :: Candidate where
  "candHyphenName = buildIslandsCandidate ''my-realm'' ''M'' OK 100 ''1.0'' ''2.0'' 3"

definition candB2 :: Candidate where
  "candB2 = buildIslandsCandidate ''b'' ''B2'' OK 130 ''1.0'' ''2.0'' 7"

text \<open>A store holding the three candidates of domains A, B and C, with no realm yet.\<close>

definition exampleStore :: Store where
  "exampleStore =
     \<lparr>getState =
        \<lparr>getRealm = None,
         getAllCatalystCandidates = [candA, candB, candC],
         getCatalystRealmCommsStatus = StatusConnecting\<rparr>,
      reducer = exampleReducer,
      dispatched = []\<rparr>"

subsection \<open>CrowdedRealmFinder\<close>

text \<open>
  Modelled from the spec: \<^verbatim>\<open>deepEqual\<close> (\<^verbatim>\<open>atomicHelpers/deepEqual\<close>) is imported by the
  code and is not among the sources. The spec says that realms are compared structurally,
  not by reference; on the values of this model that is equality.
\<close>

definition deepEqual :: "'a \<Rightarrow> 'a \<Rightarrow> bool" where
  "deepEqual a b = (a = b)"

text \<open>
  The outcome of an asynchronous call: resolved with a value, rejected with a connection
  status or by a thrown error, or still pending.
\<close>

datatype rejection = RejectedStatus CommsStatus | Thrown js_error

datatype 'a promise = Resolved 'a | Rejected rejection | Pending





record RealmPeople =
  realm :: "Realm option"
  closePeople :: int













subsection \<open>StatusPinger\<close>

text \<open>
  \<^verbatim>\<open>PingResult\<close>: every field is optional (\<^verbatim>\<open>result.resolve({})\<close> leaves all of them
  out). The payload is what \<^verbatim>\<open>JSON.parse\<close> returns.
\<close>

record 'p PingResult =
  pingStatus :: "ServerConnectionStatus option"
  pingElapsed :: "int option"
  pingPayload :: "'p option"

datatype ReadyState = UNSENT | OPENED | HEADERS_RECEIVED | LOADING | DONE

text \<open>
  One \<^verbatim>\<open>readystatechange\<close> event as the handler sees it: the ready state, the clock
  (\<^verbatim>\<open>new Date().getTime()\<close>), \<^verbatim>\<open>http.status\<close> and \<^verbatim>\<open>http.responseText\<close>.
\<close>

record XhrEvent =
  readyState :: ReadyState
  clock :: int
  httpStatus :: nat
  responseText :: string

text \<open>
  The variables of one call of \<open>ping\<close>: \<^verbatim>\<open>started\<close>, and the value the future
  \<^verbatim>\<open>result\<close> was resolved with, if it was. A future is resolved once; later calls of
  \<^verbatim>\<open>resolve\<close> change nothing.
\<close>

record 'p PingState =
  started :: "int option"
  resolvedWith :: "'p PingResult option"

definition resolve :: "'p PingResult \<Rightarrow> 'p PingState \<Rightarrow> 'p PingState" where
  "resolve r st = (case resolvedWith st of None \<Rightarrow> st\<lparr>resolvedWith := Some r\<rparr> | Some r' \<Rightarrow> st)"

definition unreachableResult :: "'p PingResult" where
  "unreachableResult = \<lparr>pingStatus = Some UNREACHABLE, pingElapsed = None, pingPayload = None\<rparr>"

definition emptyResult :: "'p PingResult" where
  "emptyResult = \<lparr>pingStatus = None, pingElapsed = None, pingPayload = None\<rparr>"

text \<open>
  The handler \<^verbatim>\<open>http.onreadystatechange\<close>. \<open>jsonParse\<close> is \<^verbatim>\<open>JSON.parse\<close>, \<open>None\<close>
  when it throws. Inside the \<^verbatim>\<open>try\<close>, reading \<^verbatim>\<open>started.getTime()\<close> of an unset
  \<^verbatim>\<open>started\<close> and a failing \<^verbatim>\<open>JSON.parse\<close> both end in the \<^verbatim>\<open>catch\<close>, which resolves
  with the empty result.
\<close>

definition onreadystatechange ::
  "(string \<Rightarrow> 'p option) \<Rightarrow> 'p PingState \<Rightarrow> XhrEvent \<Rightarrow> 'p PingState" where
  "onreadystatechange jsonParse st ev =
     (let st1 = (if readyState ev = OPENED then st\<lparr>started := Some (clock ev)\<rparr> else st)
      in if readyState ev = DONE
         then (let ended = clock ev
               in if httpStatus ev \<noteq> 200 then resolve unreachableResult st1
                  else (case started st1 of
                          None \<Rightarrow> resolve emptyResult st1
                        | Some startedAt \<Rightarrow>
                            (case jsonParse (responseText ev) of
                               None \<Rightarrow> resolve emptyResult st1
                             | Some payload \<Rightarrow>
                                 resolve \<lparr>pingStatus = Some OK,
                                          pingElapsed = Some (ended - startedAt),
                                          pingPayload = Some payload\<rparr> st1)))
         else st1)"

text \<open>
  What the browser does with the request of one call: \<^verbatim>\<open>http.open\<close> throws (\<open>None\<close>;
  it does so for a URL that does not parse) or fires the given events while it runs;
  \<^verbatim>\<open>http.send\<close> throws or not; and the events fired afterwards.
\<close>

record XhrRun =
  openEvents :: "XhrEvent list option"
  sendThrows :: bool
  laterEvents :: "XhrEvent list"

text \<open>
  \<open>ping\<close>: the state of the returned future once the request is over. \<^verbatim>\<open>http.open\<close> is
  called in the executor of \<^verbatim>\<open>new Promise(...)\<close> outside any \<^verbatim>\<open>try\<close>: when it throws, the
  executor ends there, the rejection of that inner promise is logged by
  \<^verbatim>\<open>.catch(defaultLogger.error)\<close>, \<^verbatim>\<open>send\<close> is never called and the future returned to the
  caller is never resolved.
\<close>

definition ping :: "(string \<Rightarrow> 'p option) \<Rightarrow> XhrRun \<Rightarrow> 'p PingResult promise" where
  "ping jsonParse run =
     (case openEvents run of
        None \<Rightarrow> Pending
      | Some evs \<Rightarrow>
          let st0 = \<lparr>started = None, resolvedWith = None\<rparr>;
              st1 = foldl (onreadystatechange jsonParse) st0 evs;
              st2 = (if sendThrows run then resolve unreachableResult st1 else st1);
              st3 = foldl (onreadystatechange jsonParse) st2 (laterEvents run)
          in case resolvedWith st3 of None \<Rightarrow> Pending | Some r \<Rightarrow> Resolved r)"

text \<open>
  A parser for the examples: it accepts the texts that start with an opening brace and
  returns them as they are.
\<close>

definition exampleParse :: "string \<Rightarrow> string option" where
  "exampleParse s = (case s of [] \<Rightarrow> None | c # cs \<Rightarrow> if c = CHR ''{'' then Some s else None)"

subsection \<open>RealmChangeObserver\<close>

text \<open>
  \<open>observeRealmChange\<close> keeps the variable \<^verbatim>\<open>currentRealm\<close> and subscribes a callback to
  the store. The observer is that variable together with the calls of \<^verbatim>\<open>onRealmChange\<close>
  made so far, oldest first, each with its arguments \<^verbatim>\<open>(previousRealm, currentRealm)\<close>.
\<close>

record Observer =
  currentRealm :: "Realm option"
  onRealmChangeCalls :: "(Realm option \<times> Realm) list"

definition observeRealmChange :: "Store \<Rightarrow> Observer" where
  "observeRealmChange store =
     \<lparr>currentRealm = getRealm (getState store), onRealmChangeCalls = []\<rparr>"

text \<open>
  The subscribed callback, run at a notification of the store whose state then is \<open>st\<close>.
  \<^verbatim>\<open>currentRealm && ...\<close> holds for every realm that is present.
\<close>

definition onStoreChange :: "Observer \<Rightarrow> RootDaoState \<Rightarrow> Observer" where
  "onStoreChange ob st =
     (let previousRealm = currentRealm ob;
          current = getRealm st
      in case current of
           None \<Rightarrow> ob\<lparr>currentRealm := current\<rparr>
         | Some r \<Rightarrow>
             if \<not> deepEqual previousRealm current
             then ob\<lparr>currentRealm := current,
                     onRealmChangeCalls := onRealmChangeCalls ob @ [(previousRealm, r)]\<rparr>
             else ob\<lparr>currentRealm := current\<rparr>)"

text \<open>The observer after a sequence of notifications.\<close>

definition onStoreChanges :: "Observer \<Rightarrow> RootDaoState list \<Rightarrow> Observer" where
  "onStoreChanges ob sts = foldl onStoreChange ob sts"

text \<open>
  The changes of a sequence of observed realms, as the spec words them: a value that is
  present and differs from the value observed before it, paired with that value.
\<close>

fun structuralChanges :: "Realm option \<Rightarrow> Realm option list \<Rightarrow> (Realm option \<times> Realm) list" where
  "structuralChanges previous [] = []"
| "structuralChanges previous (None # rest) = structuralChanges None rest"
| "structuralChanges previous (Some r # rest) =
     (if Some r \<noteq> previous then (previous, r) # structuralChanges (Some r) rest
      else structuralChanges (Some r) rest)"

text \<open>A state of the examples with a given current realm.\<close>

definition stateWithRealm :: "Realm option \<Rightarrow> RootDaoState" where
  "stateWithRealm r =
     \<lparr>getRealm = r, getAllCatalystCandidates = [candA, candB, candC],
      getCatalystRealmCommsStatus = StatusConnected\<rparr>"
section \<open>Properties of the scorer\<close>

lemma bitLength_le: "bitLength n \<le> k \<longleftrightarrow> n < 2 ^ k"
proof (induction n arbitrary: k rule: bitLength.induct)
  case (1 n)
  show ?case
  proof (cases "n = 0")
    case True
    then show ?thesis by (simp add: bitLength.simps)
  next
    case False
    show ?thesis
    proof (cases k)
      case 0
      with False show ?thesis by (simp add: bitLength.simps [of n])
    next
      case (Suc j)
      have "bitLength (n div 2) \<le> j \<longleftrightarrow> n div 2 < 2 ^ j"
        using "1.IH" [OF False] .
      moreover have "n div 2 < 2 ^ j \<longleftrightarrow> n < 2 ^ Suc j" by auto
      ultimately show ?thesis
        using False Suc by (simp add: bitLength.simps [of n])
    qed
  qed
qed

lemma bitLength_eq: "2 ^ k \<le> n \<Longrightarrow> n < 2 ^ Suc k \<Longrightarrow> bitLength n = Suc k"
  using bitLength_le [of n k] bitLength_le [of n "Suc k"] by simp

lemma roundToDouble_exact: "n \<le> 2 ^ 53 \<Longrightarrow> roundToDouble n = n"
proof (cases "n = 2 ^ 53")
  case True
  have "bitLength ((2::nat) ^ 53) = Suc 53" by (rule bitLength_eq) simp_all
  then show ?thesis using True by (simp add: roundToDouble_def Let_def)
next
  case False
  assume "n \<le> 2 ^ 53"
  with False have "n < 2 ^ 53" by simp
  then show ?thesis by (simp add: roundToDouble_def bitLength_le)
qed

lemma addDouble_exact: "a + b \<le> 2 ^ 53 \<Longrightarrow> addDouble a b = a + b"
  by (simp add: addDouble_def roundToDouble_exact)

lemma addDouble_tie: "addDouble 100 9007199254740893 = 9007199254740992"
proof -
  have "bitLength (9007199254740993::nat) = Suc 53" by (rule bitLength_eq) simp_all
  then show ?thesis by (simp add: addDouble_def roundToDouble_def Let_def)
qed

lemma addDouble_absorbed: "addDouble 100 1152921504606846976 = 1152921504606846976"
proof -
  have "bitLength (1152921504606847076::nat) = Suc 60" by (rule bitLength_eq) simp_all
  then show ?thesis by (simp add: addDouble_def roundToDouble_def Let_def)
qed

lemma layerScore_empty: "usersCount l = 0 \<Longrightarrow> layerScore l = - v"
  by (simp add: layerScore_def)

lemma layerScore_full:
  assumes "usersCount l \<noteq> 0"
    and "usersCount l \<ge> (case maxUsers l of None \<Rightarrow> 50 | Some m \<Rightarrow> m)"
  shows "layerScore l = - 10 * v"
  using assms by (simp add: layerScore_def Let_def)

lemma layerScore_partial:
  assumes "usersCount l \<noteq> 0"
    and "usersCount l < (case maxUsers l of None \<Rightarrow> 50 | Some m \<Rightarrow> m)"
  shows "layerScore l =
    v + v * cos (- pi / 1.8
      + (pi / (0.67 * real (case maxUsers l of None \<Rightarrow> 50 | Some m \<Rightarrow> m))) * real (usersCount l))"
proof -
  have "(case maxUsers l of None \<Rightarrow> 50 | Some m \<Rightarrow> m) \<noteq> 0"
    using assms(2) by linarith
  with assms show ?thesis
    by (simp add: layerScore_def Let_def)
qed

lemma layerScore_partial_bound:
  assumes "usersCount l \<noteq> 0"
    and "usersCount l < (case maxUsers l of None \<Rightarrow> 50 | Some m \<Rightarrow> m)"
  shows "0 \<le> layerScore l"
proof -
  let ?x = "- pi / 1.8
      + (pi / (0.67 * real (case maxUsers l of None \<Rightarrow> 50 | Some m \<Rightarrow> m))) * real (usersCount l)"
  have "- 1 \<le> cos ?x" by (rule cos_ge_minus_one)
  then have "0 \<le> 50 + 50 * cos ?x" by linarith
  then show ?thesis
    using layerScore_partial [OF assms] by (simp add: v_def)
qed

text \<open>
  C4 (as amended). With \<open>v = 50\<close> and \<^verbatim>\<open>maxUsers\<close> defaulting to 50, \<open>layerScore\<close>
  returns \<open>- v\<close> when \<^verbatim>\<open>usersCount\<close> is 0; returns \<open>- 10 * v\<close> when
  \<^verbatim>\<open>usersCount >= maxUsers\<close> and \<^verbatim>\<open>usersCount\<close> is not 0; and otherwise returns
  \<open>v + v * cos (- pi / 1.8 + (pi / (0.67 * maxUsers)) * usersCount)\<close>, which is
  strictly greater than \<open>- 10 * v\<close>. The emptiness test comes first in the code, so a
  layer with no users and capacity 0 scores \<open>- v\<close>.
\<close>

theorem layerScore_cases:
  "v = 50 \<and>
   (usersCount l = 0 \<longrightarrow> layerScore l = - v) \<and>
   (usersCount l \<noteq> 0 \<and> usersCount l \<ge> maxUsersOr50 l \<longrightarrow> layerScore l = - 10 * v) \<and>
   (usersCount l \<noteq> 0 \<and> usersCount l < maxUsersOr50 l \<longrightarrow>
      layerScore l =
        v + v * cos (- pi / 1.8 + (pi / (0.67 * real (maxUsersOr50 l))) * real (usersCount l))
      \<and> layerScore l > - 10 * v)"
proof -
  have "layerScore l > - 10 * v"
    if "usersCount l \<noteq> 0" "usersCount l < maxUsersOr50 l"
    using layerScore_partial_bound [OF that] by (simp add: v_def)
  then show ?thesis
    using layerScore_empty [of l] layerScore_full [of l] layerScore_partial [of l]
    by (simp add: v_def)
qed

theorem layerScore_cases_witness:
  "layerScore \<lparr>name = ''L1'', usersCount = 0, maxUsers = Some 50, usersParcels = None\<rparr> = - v
   \<and> layerScore \<lparr>name = ''L2'', usersCount = 50, maxUsers = Some 50, usersParcels = None\<rparr>
       = - 10 * v
   \<and> layerScore \<lparr>name = ''L3'', usersCount = 60, maxUsers = None, usersParcels = None\<rparr>
       = - 10 * v
   \<and> layerScore \<lparr>name = ''L4'', usersCount = 25, maxUsers = None, usersParcels = None\<rparr>
       = v + v * cos (- pi / 1.8 + (pi / (0.67 * 50)) * 25)
   \<and> layerScore \<lparr>name = ''L4'', usersCount = 25, maxUsers = None, usersParcels = None\<rparr>
       > - 10 * v"
  using
    layerScore_cases [of "\<lparr>name = ''L1'', usersCount = 0, maxUsers = Some 50, usersParcels = None\<rparr>"]
    layerScore_cases [of "\<lparr>name = ''L2'', usersCount = 50, maxUsers = Some 50, usersParcels = None\<rparr>"]
    layerScore_cases [of "\<lparr>name = ''L3'', usersCount = 60, maxUsers = None, usersParcels = None\<rparr>"]
    layerScore_cases [of "\<lparr>name = ''L4'', usersCount = 25, maxUsers = None, usersParcels = None\<rparr>"]
  unfolding v_def by simp

text \<open>
  C4 as stated fails: a layer with \<^verbatim>\<open>usersCount = 0\<close> and \<^verbatim>\<open>maxUsers = 0\<close> has
  \<^verbatim>\<open>usersCount >= maxUsers\<close>, and its score is \<open>- v\<close>, not \<open>- 10 * v\<close>.
\<close>

theorem layerScore_full_counterexample:
  "usersCount \<lparr>name = ''L0'', usersCount = 0, maxUsers = Some 0, usersParcels = None\<rparr>
     \<ge> maxUsersOr50 \<lparr>name = ''L0'', usersCount = 0, maxUsers = Some 0, usersParcels = None\<rparr>
   \<and> layerScore \<lparr>name = ''L0'', usersCount = 0, maxUsers = Some 0, usersParcels = None\<rparr> = - 50
   \<and> layerScore \<lparr>name = ''L0'', usersCount = 0, maxUsers = Some 0, usersParcels = None\<rparr>
       \<noteq> - 10 * v"
  by (simp add: layerScore_def v_def)

text \<open>
  C5 (as amended). \<open>islandsScore 0\<close> is \<open>- v + 1\<close> with \<open>v = 50\<close>, strictly above
  the score \<open>- v\<close> of an empty layer; \<open>islandsScore n\<close> is \<open>100 + n\<close> for every
  \<open>n\<close> from 1 to \<open>2 ^ 53 - 100\<close>; and \<open>islandsScore\<close> is strictly increasing over
  the user counts from 0 to \<open>2 ^ 53 - 100\<close>. (Beyond, the sum \<open>100 + n\<close> is rounded
  as a double.)
\<close>

theorem islandsScore_increasing:
  "v = 50 \<and> islandsScore 0 = - v + 1 \<and>
   (usersCount l = 0 \<longrightarrow> layerScore l = - v \<and> layerScore l < islandsScore 0) \<and>
   (1 \<le> n \<and> n \<le> 2 ^ 53 - 100 \<longrightarrow> islandsScore n = 100 + real n) \<and>
   (m < n \<and> n \<le> 2 ^ 53 - 100 \<longrightarrow> islandsScore m < islandsScore n)"
proof -
  have exact: "islandsScore k = 100 + real k" if "1 \<le> k" "k \<le> 2 ^ 53 - 100" for k
  proof -
    from that(2) have "100 + k \<le> 2 ^ 53" by simp
    then have "addDouble 100 k = 100 + k" by (rule addDouble_exact)
    with that(1) show ?thesis by (simp add: islandsScore_def)
  qed
  have incr: "islandsScore m < islandsScore n" if "m < n" "n \<le> 2 ^ 53 - 100"
  proof (cases "m = 0")
    case True
    then show ?thesis
      using exact [of n] that by (simp add: islandsScore_def v_def)
  next
    case False
    then show ?thesis
      using exact [of n] exact [of m] that by simp
  qed
  show ?thesis
    using exact [of n] incr by (simp add: islandsScore_def layerScore_def v_def)
qed

theorem islandsScore_increasing_witness:
  "islandsScore 0 = - 49
   \<and> layerScore \<lparr>name = ''L1'', usersCount = 0, maxUsers = Some 50, usersParcels = None\<rparr> = - 50
   \<and> layerScore \<lparr>name = ''L1'', usersCount = 0, maxUsers = Some 50, usersParcels = None\<rparr>
       < islandsScore 0
   \<and> islandsScore 5 = 105
   \<and> islandsScore 0 < islandsScore 1 \<and> islandsScore 1 < islandsScore 2
   \<and> islandsScore 2 < islandsScore 7
   \<and> islandsScore 9007199254740891 < islandsScore 9007199254740892"
  using
    islandsScore_increasing [of "\<lparr>name = ''L1'', usersCount = 0, maxUsers = Some 50, usersParcels = None\<rparr>" 5 0]
    islandsScore_increasing [of "\<lparr>name = ''L1'', usersCount = 0, maxUsers = Some 50, usersParcels = None\<rparr>" 1 0]
    islandsScore_increasing [of "\<lparr>name = ''L1'', usersCount = 0, maxUsers = Some 50, usersParcels = None\<rparr>" 2 1]
    islandsScore_increasing [of "\<lparr>name = ''L1'', usersCount = 0, maxUsers = Some 50, usersParcels = None\<rparr>" 7 2]
    islandsScore_increasing [of "\<lparr>name = ''L1'', usersCount = 0, maxUsers = Some 50, usersParcels = None\<rparr>" 9007199254740892 9007199254740891]
  unfolding v_def by simp

text \<open>
  C5 as stated fails. The user counts \<open>2 ^ 53 - 100\<close> and \<open>2 ^ 53 - 99\<close> are doubles;
  \<open>100 + usersCount\<close> is \<open>2 ^ 53\<close> at the first and, rounded, \<open>2 ^ 53\<close> again at the
  second, so the two scores are equal. At \<open>2 ^ 60\<close> the score is \<open>2 ^ 60\<close>, not
  \<open>100 + 2 ^ 60\<close>.
\<close>

theorem islandsScore_increasing_counterexample:
  "(9007199254740892::nat) = 2 ^ 53 - 100
   \<and> (9007199254740892::nat) < 9007199254740893
   \<and> islandsScore 9007199254740892 = 9007199254740992
   \<and> islandsScore 9007199254740893 = 9007199254740992
   \<and> \<not> islandsScore 9007199254740892 < islandsScore 9007199254740893
   \<and> (1152921504606846976::nat) = 2 ^ 60
   \<and> islandsScore 1152921504606846976 = 1152921504606846976
   \<and> islandsScore 1152921504606846976 \<noteq> 100 + 1152921504606846976"
  by (simp add: islandsScore_def addDouble_tie addDouble_absorbed addDouble_exact)

section \<open>Properties of the selector\<close>

lemma addUsers_lookup:
  "addUsers m c d =
     (if domain c = d
      then (case m d of
              None \<Rightarrow> Some (Number (addDouble 0 (candidateUsers c)))
            | Some (Number n) \<Rightarrow> Some (Number (addDouble n (candidateUsers c)))
            | Some NotNumeric \<Rightarrow> Some NotNumeric)
      else m d)"
  by (auto simp: addUsers_def Let_def split: option.splits entry.splits)

lemma usersOfDomain_Cons:
  "usersOfDomain (c # cs) d =
     (if domain c = d then candidateUsers c + usersOfDomain cs d else usersOfDomain cs d)"
  by (simp add: usersOfDomain_def candidateUsers_def)

lemma foldl_addUsers_Number:
  "n0 + usersOfDomain cs d \<le> 2 ^ 53 \<Longrightarrow> m d = Some (Number n0) \<Longrightarrow>
     foldl addUsers m cs d = Some (Number (n0 + usersOfDomain cs d))"
proof (induction cs arbitrary: m n0)
  case Nil
  then show ?case by (simp add: usersOfDomain_def)
next
  case (Cons c cs)
  show ?case
  proof (cases "domain c = d")
    case True
    with Cons.prems have b: "n0 + candidateUsers c + usersOfDomain cs d \<le> 2 ^ 53"
      by (simp add: usersOfDomain_Cons)
    then have "n0 + candidateUsers c \<le> 2 ^ 53" by simp
    then have "addUsers m c d = Some (Number (n0 + candidateUsers c))"
      using True Cons.prems(2) by (simp add: addUsers_lookup addDouble_exact)
    from Cons.IH [of "n0 + candidateUsers c" "addUsers m c", OF b this]
    show ?thesis
      using True by (simp add: usersOfDomain_Cons)
  next
    case False
    then have "addUsers m c d = Some (Number n0)"
      using Cons.prems(2) by (simp add: addUsers_lookup)
    moreover have "n0 + usersOfDomain cs d \<le> 2 ^ 53"
      using False Cons.prems(1) by (simp add: usersOfDomain_Cons)
    ultimately show ?thesis
      using Cons.IH False by (simp add: usersOfDomain_Cons)
  qed
qed

lemma foldl_addUsers_None:
  "usersOfDomain cs d \<le> 2 ^ 53 \<Longrightarrow> m d = None \<Longrightarrow>
     foldl addUsers m cs d =
       (if \<exists>c \<in> set cs. domain c = d then Some (Number (usersOfDomain cs d)) else None)"
proof (induction cs arbitrary: m)
  case Nil
  then show ?case by simp
next
  case (Cons c cs)
  show ?case
  proof (cases "domain c = d")
    case True
    with Cons.prems have b: "candidateUsers c + usersOfDomain cs d \<le> 2 ^ 53"
      by (simp add: usersOfDomain_Cons)
    then have "0 + candidateUsers c \<le> 2 ^ 53" by simp
    then have "addUsers m c d = Some (Number (candidateUsers c))"
      using True Cons.prems(2) by (simp add: addUsers_lookup addDouble_exact)
    from foldl_addUsers_Number
      [of "candidateUsers c" cs d "addUsers m c", OF b this]
    show ?thesis
      using True by (simp add: usersOfDomain_Cons)
  next
    case False
    then have "addUsers m c d = None"
      using Cons.prems(2) by (simp add: addUsers_lookup)
    moreover have "usersOfDomain cs d \<le> 2 ^ 53"
      using False Cons.prems(1) by (simp add: usersOfDomain_Cons)
    ultimately show ?thesis
      using Cons.IH False by (simp add: usersOfDomain_Cons)
  qed
qed

lemma usersByDomain_member:
  assumes "c \<in> set cs" "domain c \<notin> set objectPrototypeKeys"
    and "usersOfDomain cs (domain c) \<le> 2 ^ 53"
  shows "usersByDomain cs (domain c) = Some (Number (usersOfDomain cs (domain c)))"
proof -
  have "emptyObject (domain c) = None"
    using assms(2) by (simp add: emptyObject_def)
  from foldl_addUsers_None [where m = emptyObject and cs = cs and d = "domain c", OF assms(3) this]
  show ?thesis
    using assms(1) by (auto simp: usersByDomain_def)
qed

lemma mset_insertSorted: "mset (insertSorted cmp x xs) = add_mset x (mset xs)"
  by (induction xs) auto

lemma mset_stableSort: "mset (stableSort cmp xs) = mset xs"
  by (induction xs) (auto simp: mset_insertSorted)

lemma rearranges_stableSort: "rearranges stableSort"
  by (simp add: rearranges_def mset_stableSort)

lemma rearranges_set: "rearranges sortImpl \<Longrightarrow> set (sortImpl cmp xs) = set xs"
  by (metis rearranges_def set_mset_mset)

lemma rearranges_Nil: "rearranges sortImpl \<Longrightarrow> sortImpl cmp xs = [] \<longleftrightarrow> xs = []"
  by (metis rearranges_def mset_zero_iff)

lemma sortsConsistently_rearranges: "sortsConsistently sortImpl \<Longrightarrow> rearranges sortImpl"
  by (simp add: sortsConsistently_def rearranges_def)

lemma consistentOn_subset: "consistentOn cmp S \<Longrightarrow> T \<subseteq> S \<Longrightarrow> consistentOn cmp T"
  unfolding consistentOn_def by (meson subsetD)

lemma set_insertSorted: "set (insertSorted cmp x xs) = insert x (set xs)"
  by (induction xs) auto

lemma insertSorted_test:
  "(case cmp x y of None \<Rightarrow> True | Some d \<Rightarrow> d \<le> 0) \<longleftrightarrow> \<not> secondBefore (cmp x y)"
  by (auto simp: secondBefore_def split: option.splits)

lemma sorted_insertSorted:
  assumes "consistentOn cmp (insert x (set xs))"
    and "sorted_wrt (\<lambda>a b. \<not> secondBefore (cmp a b)) xs"
  shows "sorted_wrt (\<lambda>a b. \<not> secondBefore (cmp a b)) (insertSorted cmp x xs)"
  using assms
proof (induction xs)
  case Nil
  then show ?case by simp
next
  case (Cons y ys)
  let ?S = "insert x (set (y # ys))"
  have anti: "firstBefore (cmp a b) \<longleftrightarrow> secondBefore (cmp b a)" if "a \<in> ?S" "b \<in> ?S" for a b
    using Cons.prems(1) that unfolding consistentOn_def by blast
  have trans: "\<not> secondBefore (cmp a c)"
    if "a \<in> ?S" "b \<in> ?S" "c \<in> ?S" "\<not> secondBefore (cmp a b)" "\<not> secondBefore (cmp b c)"
    for a b c
    using Cons.prems(1) that unfolding consistentOn_def by blast
  from Cons.prems(2) have y_ys: "\<forall>z \<in> set ys. \<not> secondBefore (cmp y z)"
    and ys: "sorted_wrt (\<lambda>a b. \<not> secondBefore (cmp a b)) ys"
    by simp_all
  show ?case
  proof (cases "\<not> secondBefore (cmp x y)")
    case True
    have "\<forall>z \<in> set ys. \<not> secondBefore (cmp x z)"
    proof
      fix z
      assume z: "z \<in> set ys"
      show "\<not> secondBefore (cmp x z)"
        by (rule trans [of x y z]) (use z True y_ys in auto)
    qed
    with True Cons.prems(2) show ?thesis
      by (simp add: insertSorted_test)
  next
    case False
    then have "firstBefore (cmp y x)"
      using anti [of y x] by simp
    then have yx: "\<not> secondBefore (cmp y x)"
      by (auto simp: firstBefore_def secondBefore_def split: option.splits)
    have "consistentOn cmp (insert x (set ys))"
      by (rule consistentOn_subset [OF Cons.prems(1)]) auto
    from Cons.IH [OF this ys]
    have "sorted_wrt (\<lambda>a b. \<not> secondBefore (cmp a b)) (insertSorted cmp x ys)" .
    with False yx y_ys show ?thesis
      by (simp add: insertSorted_test set_insertSorted)
  qed
qed

lemma sorted_stableSort:
  "consistentOn cmp (set xs) \<Longrightarrow>
     sorted_wrt (\<lambda>a b. \<not> secondBefore (cmp a b)) (stableSort cmp xs)"
proof (induction xs)
  case Nil
  then show ?case by simp
next
  case (Cons x xs)
  have "consistentOn cmp (set xs)"
    by (rule consistentOn_subset [OF Cons.prems]) auto
  then have "sorted_wrt (\<lambda>a b. \<not> secondBefore (cmp a b)) (stableSort cmp xs)"
    by (rule Cons.IH)
  moreover have "consistentOn cmp (insert x (set (stableSort cmp xs)))"
    using Cons.prems by (simp add: mset_stableSort [THEN mset_eq_setD])
  ultimately show ?case
    by (simp add: sorted_insertSorted)
qed

lemma sortsConsistently_stableSort: "sortsConsistently stableSort"
  by (simp add: sortsConsistently_def mset_stableSort sorted_stableSort)

lemma comparator_antisym:
  "firstBefore (comparator m a b) \<longleftrightarrow> secondBefore (comparator m b a)"
  by (auto simp: comparator_def Let_def firstBefore_def secondBefore_def
      split: option.splits entry.splits)

lemma comparator_self: "\<not> secondBefore (comparator m a a)"
  by (auto simp: comparator_def Let_def secondBefore_def split: option.splits entry.splits)

lemma comparator_number:
  "m (domain a) = Some (Number u) \<Longrightarrow> m (domain b) = Some (Number w) \<Longrightarrow>
     comparator m a b \<noteq> None"
  by (simp add: comparator_def Let_def)

lemma comparator_consistent_pair:
  assumes "m (domain a) = Some (Number u)" "m (domain b) = Some (Number w)"
  shows "consistentOn (comparator m) {a, b}"
proof -
  have "\<forall>x \<in> {a, b}. \<forall>y \<in> {a, b}. comparator m x y \<noteq> None"
    using assms comparator_number [of m a u a u] comparator_number [of m a u b w]
      comparator_number [of m b w a u] comparator_number [of m b w b w]
    by auto
  moreover have "\<forall>x \<in> {a, b}. \<forall>y \<in> {a, b}.
      firstBefore (comparator m x y) \<longleftrightarrow> secondBefore (comparator m y x)"
    by (simp add: comparator_antisym)
  moreover have "\<forall>x \<in> {a, b}. \<forall>y \<in> {a, b}. \<forall>z \<in> {a, b}.
      \<not> secondBefore (comparator m x y) \<and> \<not> secondBefore (comparator m y z)
        \<longrightarrow> \<not> secondBefore (comparator m x z)"
    using comparator_self [of m] by auto
  ultimately show ?thesis
    unfolding consistentOn_def by blast
qed

lemma selectable_iff: "selectable c \<longleftrightarrow> status c = OK \<and> \<not> isFullLayer c \<and>
    (case type c of IslandsBased n \<Rightarrow> True | LayerBased l \<Rightarrow> maxUsers l \<noteq> None)"
  by (auto simp: selectable_def isFullLayer_def split: CandidateType.splits option.splits)

lemma pickCatalystRealm_picked:
  "pickCatalystRealm sortImpl candidates = Inr r \<Longrightarrow>
     \<exists>c. pickedCandidate sortImpl candidates = Some c \<and> r = candidateToRealm c"
  by (auto simp: pickCatalystRealm_def pickedCandidate_def Let_def split: if_splits list.splits)

lemma pickedCandidate_selectable:
  assumes "rearranges sortImpl" "pickedCandidate sortImpl candidates = Some c"
  shows "c \<in> set candidates \<and> selectable c"
proof -
  let ?sorted = "sortImpl (comparator (usersByDomain candidates)) (filter selectable candidates)"
  from assms(2) have "c \<in> set ?sorted"
    by (auto simp: pickedCandidate_def split: list.splits)
  then have "c \<in> set (filter selectable candidates)"
    using rearranges_set [OF assms(1)] by blast
  then show ?thesis by simp
qed

lemma sorted_head_first:
  assumes "sortsConsistently sortImpl" "consistentOn cmp (set xs)"
    and "sortImpl cmp xs = c # cs" "x \<in> set xs"
  shows "\<not> firstBefore (cmp x c)"
proof -
  have set_eq: "set (sortImpl cmp xs) = set xs"
    using assms(1) by (metis sortsConsistently_def set_mset_mset)
  then have c: "c \<in> set xs" and x: "x = c \<or> x \<in> set cs"
    using assms(3,4) by auto
  have anti: "firstBefore (cmp x c) \<longleftrightarrow> secondBefore (cmp c x)"
    using assms(2,4) c unfolding consistentOn_def by blast
  have "sorted_wrt (\<lambda>a b. \<not> secondBefore (cmp a b)) (c # cs)"
    using assms(1,2,3) unfolding sortsConsistently_def by metis
  then have later: "\<forall>z \<in> set cs. \<not> secondBefore (cmp c z)"
    by simp
  from x show ?thesis
  proof
    assume "x = c"
    with anti show ?thesis
      by (auto simp: firstBefore_def secondBefore_def split: option.splits)
  next
    assume "x \<in> set cs"
    with later anti show ?thesis by simp
  qed
qed

text \<open>
  C1 (as amended). Let two candidates pass the filter, with domains that are not names of
  properties inherited from \<^verbatim>\<open>Object.prototype\<close> and whose users sum to at most
  \<open>2 ^ 53\<close>. Then \<^verbatim>\<open>usersByDomain\<close> holds for each domain the sum of the user counts of
  all candidates of that domain, and the comparator orders the two by elapsed time
  ascending when the elapsed times differ by more than 1500 ms; otherwise by score
  descending when the scores differ; otherwise by the users of the domain ascending when
  these differ; otherwise by elapsed time ascending. The realm returned has the
  \<^verbatim>\<open>catalystName\<close>, \<^verbatim>\<open>domain\<close> and \<^verbatim>\<open>lighthouseVersion\<close> of the first element of the
  array that \<^verbatim>\<open>sort\<close> returns for the filtered candidates with this comparator, and its
  layer name if it is layer-based. Whenever the comparator orders the filtered candidates
  consistently, no filtered candidate is ordered before that element; it does so whenever
  the two candidates are the only ones that pass the filter, and then the one the
  comparator puts first is selected.
\<close>

theorem pickCatalystRealm_comparator:
  assumes "sortsConsistently sortImpl"
    and "c1 \<in> set candidates" "selectable c1"
    and "c2 \<in> set candidates" "selectable c2"
    and "domain c1 \<notin> set objectPrototypeKeys" "domain c2 \<notin> set objectPrototypeKeys"
    and "usersOfDomain candidates (domain c1) \<le> 2 ^ 53"
    and "usersOfDomain candidates (domain c2) \<le> 2 ^ 53"
  shows
    "(let byDomain = usersByDomain candidates;
          r = comparator byDomain c1 c2;
          u1 = usersOfDomain candidates (domain c1);
          u2 = usersOfDomain candidates (domain c2);
          near = (\<bar>elapsed c1 - elapsed c2\<bar> \<le> 1500);
          passing = filter selectable candidates
      in byDomain (domain c1) = Some (Number u1) \<and> byDomain (domain c2) = Some (Number u2) \<and>
         (\<not> near \<longrightarrow>
            (firstBefore r \<longleftrightarrow> elapsed c1 < elapsed c2) \<and>
            (secondBefore r \<longleftrightarrow> elapsed c2 < elapsed c1)) \<and>
         (near \<and> score c1 \<noteq> score c2 \<longrightarrow>
            (firstBefore r \<longleftrightarrow> score c2 < score c1) \<and>
            (secondBefore r \<longleftrightarrow> score c1 < score c2)) \<and>
         (near \<and> score c1 = score c2 \<and> u1 \<noteq> u2 \<longrightarrow>
            (firstBefore r \<longleftrightarrow> u1 < u2) \<and>
            (secondBefore r \<longleftrightarrow> u2 < u1)) \<and>
         (near \<and> score c1 = score c2 \<and> u1 = u2 \<longrightarrow>
            (firstBefore r \<longleftrightarrow> elapsed c1 < elapsed c2) \<and>
            (secondBefore r \<longleftrightarrow> elapsed c2 < elapsed c1)) \<and>
         (\<exists>c cs. sortImpl (comparator byDomain) passing = c # cs \<and>
            c \<in> set candidates \<and> selectable c \<and>
            pickCatalystRealm sortImpl candidates =
              Inr \<lparr>catalystName = catalystName c, domain = domain c,
                   lighthouseVersion = lighthouseVersion c,
                   layer = (case type c of
                              LayerBased l \<Rightarrow> Some (name l)
                            | IslandsBased n \<Rightarrow> None)\<rparr> \<and>
            (consistentOn (comparator byDomain) (set passing) \<longrightarrow>
               (\<forall>c' \<in> set passing. \<not> firstBefore (comparator byDomain c' c))) \<and>
            (set passing = {c1, c2} \<and> firstBefore r \<longrightarrow> c = c1) \<and>
            (set passing = {c1, c2} \<and> secondBefore r \<longrightarrow> c = c2)))"
proof -
  let ?m = "usersByDomain candidates"
  let ?passing = "filter selectable candidates"
  let ?r = "comparator ?m c1 c2"
  have l1: "?m (domain c1) = Some (Number (usersOfDomain candidates (domain c1)))"
    using assms(2,6,8) by (rule usersByDomain_member)
  have l2: "?m (domain c2) = Some (Number (usersOfDomain candidates (domain c2)))"
    using assms(4,7,9) by (rule usersByDomain_member)
  have tiers:
    "(\<not> \<bar>elapsed c1 - elapsed c2\<bar> \<le> 1500 \<longrightarrow>
        (firstBefore ?r \<longleftrightarrow> elapsed c1 < elapsed c2) \<and>
        (secondBefore ?r \<longleftrightarrow> elapsed c2 < elapsed c1)) \<and>
     (\<bar>elapsed c1 - elapsed c2\<bar> \<le> 1500 \<and> score c1 \<noteq> score c2 \<longrightarrow>
        (firstBefore ?r \<longleftrightarrow> score c2 < score c1) \<and>
        (secondBefore ?r \<longleftrightarrow> score c1 < score c2)) \<and>
     (\<bar>elapsed c1 - elapsed c2\<bar> \<le> 1500 \<and> score c1 = score c2 \<and>
        usersOfDomain candidates (domain c1) \<noteq> usersOfDomain candidates (domain c2) \<longrightarrow>
        (firstBefore ?r \<longleftrightarrow>
           usersOfDomain candidates (domain c1) < usersOfDomain candidates (domain c2)) \<and>
        (secondBefore ?r \<longleftrightarrow>
           usersOfDomain candidates (domain c2) < usersOfDomain candidates (domain c1))) \<and>
     (\<bar>elapsed c1 - elapsed c2\<bar> \<le> 1500 \<and> score c1 = score c2 \<and>
        usersOfDomain candidates (domain c1) = usersOfDomain candidates (domain c2) \<longrightarrow>
        (firstBefore ?r \<longleftrightarrow> elapsed c1 < elapsed c2) \<and>
        (secondBefore ?r \<longleftrightarrow> elapsed c2 < elapsed c1))"
    by (auto simp: l1 l2 comparator_def Let_def firstBefore_def secondBefore_def)
  have "?passing \<noteq> []"
    using assms(2,3) by (auto simp: filter_empty_conv)
  then have "sortImpl (comparator ?m) ?passing \<noteq> []"
    using rearranges_Nil [OF sortsConsistently_rearranges [OF assms(1)]] by blast
  then obtain c cs where sorted: "sortImpl (comparator ?m) ?passing = c # cs"
    by (cases "sortImpl (comparator ?m) ?passing") auto
  have "c \<in> set (sortImpl (comparator ?m) ?passing)"
    using sorted by simp
  then have c: "c \<in> set ?passing"
    using rearranges_set [OF sortsConsistently_rearranges [OF assms(1)]] by blast
  have picked: "pickCatalystRealm sortImpl candidates =
      Inr \<lparr>catalystName = catalystName c, domain = domain c,
           lighthouseVersion = lighthouseVersion c,
           layer = (case type c of LayerBased l \<Rightarrow> Some (name l) | IslandsBased n \<Rightarrow> None)\<rparr>"
    using sorted by (simp add: pickCatalystRealm_def Let_def candidateToRealm_def)
  have first: "\<forall>c' \<in> set ?passing. \<not> firstBefore (comparator ?m c' c)"
    if "consistentOn (comparator ?m) (set ?passing)"
    using sorted_head_first [OF assms(1) that sorted] by blast
  have pair: "\<not> firstBefore (comparator ?m c1 c) \<and> \<not> firstBefore (comparator ?m c2 c)"
    if "set ?passing = {c1, c2}"
  proof -
    have "consistentOn (comparator ?m) (set ?passing)"
      using that comparator_consistent_pair [OF l1 l2] by simp
    moreover have "c1 \<in> set ?passing" "c2 \<in> set ?passing"
      using that by auto
    ultimately show ?thesis
      using first by blast
  qed
  have p1: "c = c1" if "set ?passing = {c1, c2}" "firstBefore ?r"
    using pair [OF that(1)] that c by auto
  have p2: "c = c2" if "set ?passing = {c1, c2}" "secondBefore ?r"
  proof -
    from that(2) have "firstBefore (comparator ?m c2 c1)"
      by (simp add: comparator_antisym)
    then show ?thesis
      using pair [OF that(1)] that(1) c by auto
  qed
  have sel: "\<exists>c cs. sortImpl (comparator ?m) ?passing = c # cs \<and>
            c \<in> set candidates \<and> selectable c \<and>
            pickCatalystRealm sortImpl candidates =
              Inr \<lparr>catalystName = catalystName c, domain = domain c,
                   lighthouseVersion = lighthouseVersion c,
                   layer = (case type c of
                              LayerBased l \<Rightarrow> Some (name l)
                            | IslandsBased n \<Rightarrow> None)\<rparr> \<and>
            (consistentOn (comparator ?m) (set ?passing) \<longrightarrow>
               (\<forall>c' \<in> set ?passing. \<not> firstBefore (comparator ?m c' c))) \<and>
            (set ?passing = {c1, c2} \<and> firstBefore ?r \<longrightarrow> c = c1) \<and>
            (set ?passing = {c1, c2} \<and> secondBefore ?r \<longrightarrow> c = c2)"
    using sorted c picked first p1 p2 by (intro exI [of _ c] exI [of _ cs]) auto
  show ?thesis
    unfolding Let_def using l1 l2 tiers sel by blast
qed

text \<open>
  C2. A realm returned by \<open>pickCatalystRealm\<close> is built from a candidate of the input
  whose connection status is \<open>OK\<close> and which is not a full layer; candidates that are
  not \<open>OK\<close> or are full layers are removed by the filter, so they are not in the
  sorted list at all.
\<close>

theorem pickCatalystRealm_never_full:
  assumes "rearranges sortImpl"
  shows
    "(\<forall>r. pickCatalystRealm sortImpl candidates = Inr r \<longrightarrow>
        (\<exists>c. pickedCandidate sortImpl candidates = Some c \<and> r = candidateToRealm c \<and>
             c \<in> set candidates \<and> status c = OK \<and> \<not> isFullLayer c)) \<and>
     (\<forall>c. status c \<noteq> OK \<or> isFullLayer c \<longrightarrow>
        c \<notin> set (filter selectable candidates) \<and>
        c \<notin> set (sortImpl (comparator (usersByDomain candidates)) (filter selectable candidates)) \<and>
        pickedCandidate sortImpl candidates \<noteq> Some c)"
proof -
  have a: "\<exists>c. pickedCandidate sortImpl candidates = Some c \<and> r = candidateToRealm c \<and>
             c \<in> set candidates \<and> status c = OK \<and> \<not> isFullLayer c"
    if "pickCatalystRealm sortImpl candidates = Inr r" for r
    using pickCatalystRealm_picked [OF that] pickedCandidate_selectable [OF assms]
    by (metis selectable_iff)
  have b: "c \<notin> set (filter selectable candidates) \<and>
        c \<notin> set (sortImpl (comparator (usersByDomain candidates)) (filter selectable candidates)) \<and>
        pickedCandidate sortImpl candidates \<noteq> Some c"
    if "status c \<noteq> OK \<or> isFullLayer c" for c
  proof -
    from that have "\<not> selectable c" by (auto simp: selectable_iff)
    then show ?thesis
      using rearranges_set [OF assms] pickedCandidate_selectable [OF assms] by auto
  qed
  from a b show ?thesis by blast
qed

text \<open>
  C3. \<open>pickCatalystRealm\<close> fails with the explicit error ``No available realm found!''
  exactly when the candidate list is not empty and no candidate passes the filter. On an
  empty candidate list it fails too, with a different error (the \<^verbatim>\<open>TypeError\<close> of
  building a realm from \<^verbatim>\<open>sorted[0] = undefined\<close>); in every other case it returns a realm.
\<close>

theorem pickCatalystRealm_errors:
  assumes "rearranges sortImpl"
  shows
    "(pickCatalystRealm sortImpl candidates = Inl (Error ''No available realm found!'')
        \<longleftrightarrow> candidates \<noteq> [] \<and> filter selectable candidates = []) \<and>
     (candidates = [] \<longrightarrow> pickCatalystRealm sortImpl candidates = Inl TypeError) \<and>
     (filter selectable candidates \<noteq> [] \<longrightarrow>
        (\<exists>r. pickCatalystRealm sortImpl candidates = Inr r))"
proof -
  let ?sorted = "sortImpl (comparator (usersByDomain candidates)) (filter selectable candidates)"
  have e: "?sorted = [] \<longleftrightarrow> filter selectable candidates = []"
    using rearranges_Nil [OF assms] by blast
  show ?thesis
  proof (cases ?sorted)
    case Nil
    with e show ?thesis
      by (auto simp: pickCatalystRealm_def Let_def)
  next
    case (Cons c cs)
    with e show ?thesis
      by (auto simp: pickCatalystRealm_def Let_def)
  qed
qed

theorem pickCatalystRealm_comparator_witness:
  "sortsConsistently stableSort
   \<and> selectable candA \<and> selectable candB \<and> selectable candE \<and> selectable candF
   \<and> selectable candG
   \<and> domain candG \<notin> set objectPrototypeKeys \<and> domain candB \<notin> set objectPrototypeKeys
   \<and> usersOfDomain [candG, candB] (domain candG) = 9
   \<and> usersOfDomain [candG, candB] (domain candB) = 5
   \<and> usersByDomain [candG, candB] ''G'' = Some (Number 9)
   \<and> filter selectable [candG, candB] = [candG, candB]
   \<and> elapsed candG - elapsed candB = 1880
   \<and> score candB < score candG
   \<and> secondBefore (comparator (usersByDomain [candG, candB]) candG candB)
   \<and> pickCatalystRealm stableSort [candG, candB]
       = Inr \<lparr>catalystName = ''b'', domain = ''B'', lighthouseVersion = ''1.0'', layer = None\<rparr>
   \<and> filter selectable [candA, candB] = [candA, candB]
   \<and> score candA < score candB
   \<and> secondBefore (comparator (usersByDomain [candA, candB]) candA candB)
   \<and> pickCatalystRealm stableSort [candA, candB]
       = Inr \<lparr>catalystName = ''b'', domain = ''B'', lighthouseVersion = ''1.0'', layer = None\<rparr>
   \<and> filter selectable [candA, candA2, candE] = [candA, candE]
   \<and> score candA = score candE
   \<and> usersOfDomain [candA, candA2, candE] ''A'' = 50
   \<and> usersOfDomain [candA, candA2, candE] ''E'' = 0
   \<and> secondBefore (comparator (usersByDomain [candA, candA2, candE]) candA candE)
   \<and> pickCatalystRealm stableSort [candA, candA2, candE]
       = Inr \<lparr>catalystName = ''e'', domain = ''E'', lighthouseVersion = ''1.0'',
              layer = Some ''L1''\<rparr>
   \<and> filter selectable [candE, candF] = [candE, candF]
   \<and> score candF = score candE
   \<and> usersOfDomain [candE, candF] ''F'' = usersOfDomain [candE, candF] ''E''
   \<and> firstBefore (comparator (usersByDomain [candE, candF]) candF candE)
   \<and> pickCatalystRealm stableSort [candE, candF]
       = Inr \<lparr>catalystName = ''f'', domain = ''F'', lighthouseVersion = ''1.0'',
              layer = Some ''L1''\<rparr>"
  using
    pickCatalystRealm_comparator [OF sortsConsistently_stableSort,
      of candG "[candG, candB]" candB]
    pickCatalystRealm_comparator [OF sortsConsistently_stableSort,
      of candA "[candA, candB]" candB]
    pickCatalystRealm_comparator [OF sortsConsistently_stableSort,
      of candA "[candA, candA2, candE]" candE]
    pickCatalystRealm_comparator [OF sortsConsistently_stableSort,
      of candF "[candE, candF]" candE]
    sortsConsistently_stableSort
  by (simp add: candA_def candB_def candA2_def candE_def candF_def candG_def
      buildLayerCandidate_def buildIslandsCandidate_def layerScore_def islandsScore_def
      addDouble_exact v_def
      pickCatalystRealm_def usersByDomain_def addUsers_def emptyObject_def
      objectPrototypeKeys_def selectable_def comparator_def candidateUsers_def
      usersOfDomain_def candidateToRealm_def firstBefore_def secondBefore_def Let_def)

text \<open>
  C1 as stated fails. First, \<open>candProto\<close> and \<open>candA\<close> pass the filter, are 0 ms apart
  and have equal scores; the users of their domains are 0 and 50, yet the comparator does
  not order them by these sums: the domain of \<open>candProto\<close> is \<open>constructor\<close>, its entry
  in \<^verbatim>\<open>usersByDomain\<close> is no number and the comparator returns \<^verbatim>\<open>NaN\<close>. Second, of the
  three islands realms \<open>candX\<close>, \<open>candY\<close>, \<open>candZ\<close> the comparator puts \<open>candY\<close> before
  \<open>candX\<close> and \<open>candZ\<close> before \<open>candY\<close> (higher score, at most 1500 ms apart) and
  \<open>candX\<close> before \<open>candZ\<close> (2000 ms faster): no list of the three is sorted this way, and
  whichever is selected, the comparator puts another candidate before it. The stable
  insertion sort selects \<open>candX\<close>.
\<close>

theorem pickCatalystRealm_comparator_counterexample:
  "selectable candProto \<and> selectable candA
   \<and> candProto \<in> set [candProto, candA, candA2] \<and> candA \<in> set [candProto, candA, candA2]
   \<and> \<bar>elapsed candProto - elapsed candA\<bar> \<le> 1500
   \<and> score candProto = score candA
   \<and> usersOfDomain [candProto, candA, candA2] (domain candProto) = 0
   \<and> usersOfDomain [candProto, candA, candA2] (domain candA) = 50
   \<and> usersByDomain [candProto, candA, candA2] (domain candProto) = Some NotNumeric
   \<and> comparator (usersByDomain [candProto, candA, candA2]) candProto candA = None
   \<and> \<not> firstBefore (comparator (usersByDomain [candProto, candA, candA2]) candProto candA)
   \<and> selectable candX \<and> selectable candY \<and> selectable candZ
   \<and> firstBefore (comparator (usersByDomain [candX, candY, candZ]) candY candX)
   \<and> firstBefore (comparator (usersByDomain [candX, candY, candZ]) candZ candY)
   \<and> firstBefore (comparator (usersByDomain [candX, candY, candZ]) candX candZ)
   \<and> elapsed candZ - elapsed candX = 2000
   \<and> stableSort (comparator (usersByDomain [candX, candY, candZ]))
        (filter selectable [candX, candY, candZ]) = [candX, candZ, candY]
   \<and> pickCatalystRealm stableSort [candX, candY, candZ]
       = Inr \<lparr>catalystName = ''x'', domain = ''X'', lighthouseVersion = ''1.0'', layer = None\<rparr>"
  by (simp add: candProto_def candA_def candA2_def candX_def candY_def candZ_def
      buildLayerCandidate_def buildIslandsCandidate_def layerScore_def islandsScore_def
      addDouble_exact v_def
      pickCatalystRealm_def usersByDomain_def addUsers_def emptyObject_def
      objectPrototypeKeys_def selectable_def comparator_def candidateUsers_def
      usersOfDomain_def candidateToRealm_def firstBefore_def secondBefore_def Let_def)

theorem pickCatalystRealm_never_full_witness:
  "rearranges stableSort
   \<and> isFullLayer candC
   \<and> firstBefore (comparator (usersByDomain [candG, candC]) candC candG)
   \<and> candC \<notin> set (filter selectable [candG, candC])
   \<and> pickedCandidate stableSort [candG, candC] = Some candG
   \<and> pickCatalystRealm stableSort [candG, candC] = Inr (candidateToRealm candG)
   \<and> status candG = OK \<and> \<not> isFullLayer candG
   \<and> pickCatalystRealm stableSort [candA, candB, candC] = Inr (candidateToRealm candB)
   \<and> candidateToRealm candB
       = \<lparr>catalystName = ''b'', domain = ''B'', lighthouseVersion = ''1.0'', layer = None\<rparr>"
  using
    pickCatalystRealm_never_full [OF rearranges_stableSort, of "[candG, candC]"]
    pickCatalystRealm_never_full [OF rearranges_stableSort, of "[candA, candB, candC]"]
    rearranges_stableSort
  by (simp add: candA_def candB_def candC_def candG_def
      buildLayerCandidate_def buildIslandsCandidate_def layerScore_def islandsScore_def addDouble_exact v_def
      pickCatalystRealm_def pickedCandidate_def usersByDomain_def addUsers_def selectable_def
      comparator_def candidateUsers_def usersOfDomain_def isFullLayer_def
      firstBefore_def secondBefore_def Let_def candidateToRealm_def)

theorem pickCatalystRealm_errors_witness:
  "rearranges stableSort
   \<and> pickCatalystRealm stableSort [candC, candA2] = Inl (Error ''No available realm found!'')
   \<and> filter selectable [candC, candA2] = []
   \<and> pickCatalystRealm stableSort [] = Inl TypeError
   \<and> filter selectable [candA, candB, candC] = [candA, candB]
   \<and> pickCatalystRealm stableSort [candA, candB, candC] = Inr (candidateToRealm candB)"
  using
    pickCatalystRealm_errors [OF rearranges_stableSort, of "[candC, candA2]"]
    pickCatalystRealm_errors [OF rearranges_stableSort, of "[]"]
    pickCatalystRealm_errors [OF rearranges_stableSort, of "[candA, candB, candC]"]
    rearranges_stableSort
  by (simp add: candA_def candB_def candC_def candA2_def candE_def candF_def candG_def
      buildLayerCandidate_def buildIslandsCandidate_def layerScore_def islandsScore_def addDouble_exact v_def
      pickCatalystRealm_def pickedCandidate_def usersByDomain_def addUsers_def selectable_def
      comparator_def candidateUsers_def usersOfDomain_def isFullLayer_def
      firstBefore_def secondBefore_def Let_def)

section \<open>Properties of realm strings and of changeRealm\<close>

lemma splitOn_not_Nil: "splitOn sep s \<noteq> []"
  by (induction s) (auto split: list.splits)

lemma splitOn_without_sep: "sep \<notin> set s \<Longrightarrow> splitOn sep s = [s]"
  by (induction s) auto

lemma splitOn_one_sep:
  "sep \<notin> set a \<Longrightarrow> sep \<notin> set b \<Longrightarrow> splitOn sep (a @ sep # b) = [a, b]"
  by (induction a) (auto simp: splitOn_without_sep)

lemma getRealmFromString_find:
  "getRealmFromString realmString candidates =
     map_option candidateToRealm (find (matchesRealmString realmString) candidates)"
proof (cases "splitOn CHR ''-'' realmString")
  case Nil
  then show ?thesis by (simp add: splitOn_not_Nil)
next
  case (Cons p0 ps)
  show ?thesis
  proof (cases "\<exists>p1. ps = [p1]")
    case True
    then obtain p1 where ps: "ps = [p1]" by blast
    have "matchesRealmString realmString =
        (\<lambda>it. case type it of
                 LayerBased l \<Rightarrow> catalystName it = p0 \<and> name l = p1
               | IslandsBased n \<Rightarrow> False)"
      by (rule ext) (simp add: matchesRealmString_def Cons ps)
    then show ?thesis
      by (simp add: getRealmFromString_def Cons ps realmForLayer_def split: option.splits)
  next
    case False
    have "matchesRealmString realmString =
        (\<lambda>it. case type it of
                 IslandsBased n \<Rightarrow> catalystName it = p0
               | LayerBased l \<Rightarrow> False)"
      using False
      by (intro ext) (auto simp: matchesRealmString_def Cons split: list.splits)
    moreover have "getRealmFromString realmString candidates = realmFor p0 candidates"
      using False by (auto simp: getRealmFromString_def Cons split: list.splits)
    ultimately show ?thesis
      by (simp add: realmFor_def split: option.splits)
  qed
qed

lemma find_Some_first: "find P xs = Some x \<Longrightarrow> x \<in> set xs \<and> P x"
  by (induction xs) (auto split: if_splits)

lemma find_None_none: "find P xs = None \<longleftrightarrow> (\<forall>x \<in> set xs. \<not> P x)"
  by (induction xs) auto

text \<open>
  C10 (as amended). \<open>changeRealm\<close> is atomic on failure: for every realm string that
  matches no candidate of the current list (no layer-based candidate with that
  \<^verbatim>\<open>catalystName\<close> and layer name for a string of two parts, no islands-based candidate
  named as the first part for a string with any other number of parts) it returns nothing
  and dispatches nothing, leaving the store, published realm included, as it was. It
  dispatches exactly when a matching candidate exists: then it returns the realm of a
  matching candidate and dispatches \<open>setCatalystRealm\<close> of that realm, once.
\<close>

theorem changeRealm_atomic:
  "(let candidates = getAllCatalystCandidates (getState store);
        result = changeRealm realmString store
    in ((\<exists>c \<in> set candidates. matchesRealmString realmString c) \<longrightarrow>
          (\<exists>c \<in> set candidates. matchesRealmString realmString c \<and>
             fst result = Some (candidateToRealm c) \<and>
             snd result = dispatch (setCatalystRealm (candidateToRealm c)) store \<and>
             dispatched (snd result) = dispatched store @ [setCatalystRealm (candidateToRealm c)] \<and>
             getState (snd result)
               = reducer store (getState store) (setCatalystRealm (candidateToRealm c)))) \<and>
       (\<not> (\<exists>c \<in> set candidates. matchesRealmString realmString c) \<longrightarrow>
          fst result = None \<and> snd result = store \<and>
          dispatched (snd result) = dispatched store \<and>
          getRealm (getState (snd result)) = getRealm (getState store)))"
proof (cases "find (matchesRealmString realmString) (getAllCatalystCandidates (getState store))")
  case None
  then have "\<not> (\<exists>c \<in> set (getAllCatalystCandidates (getState store)).
      matchesRealmString realmString c)"
    by (simp add: find_None_none)
  then show ?thesis
    using None by (simp add: changeRealm_def getRealmFromString_find Let_def)
next
  case (Some c)
  then have "c \<in> set (getAllCatalystCandidates (getState store)) \<and> matchesRealmString realmString c"
    by (rule find_Some_first)
  then show ?thesis
    using Some by (auto simp: changeRealm_def getRealmFromString_find Let_def dispatch_def)
qed

theorem changeRealm_atomic_witness:
  "changeRealm ''b'' exampleStore
     = (Some (candidateToRealm candB), dispatch (setCatalystRealm (candidateToRealm candB)) exampleStore)
   \<and> matchesRealmString ''b'' candB
   \<and> dispatched (snd (changeRealm ''b'' exampleStore)) = [setCatalystRealm (candidateToRealm candB)]
   \<and> getRealm (getState (snd (changeRealm ''b'' exampleStore))) = Some (candidateToRealm candB)
   \<and> changeRealm ''a-L1'' exampleStore
     = (Some (candidateToRealm candA), dispatch (setCatalystRealm (candidateToRealm candA)) exampleStore)
   \<and> matchesRealmString ''a-L1'' candA
   \<and> changeRealm ''a-L9'' exampleStore = (None, exampleStore)
   \<and> changeRealm ''a'' exampleStore = (None, exampleStore)
   \<and> changeRealm ''zzz'' exampleStore = (None, exampleStore)
   \<and> changeRealm ''b-x-y'' exampleStore
     = (Some (candidateToRealm candB), dispatch (setCatalystRealm (candidateToRealm candB)) exampleStore)
   \<and> matchesRealmString ''b-x-y'' candB"
  using
    changeRealm_atomic [of exampleStore "''b''"]
    changeRealm_atomic [of exampleStore "''a-L1''"]
    changeRealm_atomic [of exampleStore "''a-L9''"]
    changeRealm_atomic [of exampleStore "''zzz''"]
  by (simp add: changeRealm_def getRealmFromString_def realmForLayer_def realmFor_def
      matchesRealmString_def exampleStore_def dispatch_def Let_def
      candA_def candB_def candC_def buildLayerCandidate_def buildIslandsCandidate_def)

text \<open>
  C10 as stated fails. The string \<open>b-x-y\<close> has three parts, so it is neither a string of
  two parts with a layer-based match nor a string of one part naming an islands-based
  candidate (no candidate is named \<open>b-x-y\<close>); yet \<open>changeRealm\<close> looks up its first part
  and dispatches the realm of the islands-based candidate \<open>b\<close>.
\<close>

theorem changeRealm_counterexample:
  "splitOn CHR ''-'' ''b-x-y'' = [''b'', ''x'', ''y'']
   \<and> length (splitOn CHR ''-'' ''b-x-y'') \<noteq> 1
   \<and> length (splitOn CHR ''-'' ''b-x-y'') \<noteq> 2
   \<and> getAllCatalystCandidates (getState exampleStore) = [candA, candB, candC]
   \<and> catalystName candA \<noteq> ''b-x-y'' \<and> catalystName candB \<noteq> ''b-x-y''
   \<and> catalystName candC \<noteq> ''b-x-y''
   \<and> changeRealm ''b-x-y'' exampleStore
     = (Some (candidateToRealm candB), dispatch (setCatalystRealm (candidateToRealm candB)) exampleStore)
   \<and> dispatched (snd (changeRealm ''b-x-y'' exampleStore))
     = [setCatalystRealm (candidateToRealm candB)]"
  by (simp add: changeRealm_def getRealmFromString_def realmForLayer_def realmFor_def
      exampleStore_def dispatch_def Let_def
      candA_def candB_def candC_def buildLayerCandidate_def buildIslandsCandidate_def)

lemma canonicalRealmString_candidate:
  "canonicalRealmString (candidateToRealm c) =
     (case type c of
        IslandsBased n \<Rightarrow> catalystName c
      | LayerBased l \<Rightarrow> catalystName c @ ''-'' @ name l)"
  by (simp add: canonicalRealmString_def candidateToRealm_def split: CandidateType.splits)

lemma matchesRealmString_own:
  assumes "CHR ''-'' \<notin> set (catalystName c)"
    and "case type c of LayerBased l \<Rightarrow> CHR ''-'' \<notin> set (name l) | IslandsBased n \<Rightarrow> True"
  shows "matchesRealmString (canonicalRealmString (candidateToRealm c)) c' \<longleftrightarrow> sameName c c'"
proof (cases "type c")
  case (IslandsBased n)
  then have "splitOn CHR ''-'' (canonicalRealmString (candidateToRealm c)) = [catalystName c]"
    using assms(1) by (simp add: canonicalRealmString_candidate splitOn_without_sep)
  then show ?thesis
    using IslandsBased
    by (auto simp: matchesRealmString_def sameName_def split: CandidateType.splits)
next
  case (LayerBased l)
  then have "CHR ''-'' \<notin> set (name l)"
    using assms(2) by simp
  then have "splitOn CHR ''-'' (canonicalRealmString (candidateToRealm c)) = [catalystName c, name l]"
    using assms(1) LayerBased by (simp add: canonicalRealmString_candidate splitOn_one_sep)
  then show ?thesis
    using LayerBased
    by (auto simp: matchesRealmString_def sameName_def split: CandidateType.splits)
qed

lemma sameName_refl: "sameName c c"
  by (simp add: sameName_def split: CandidateType.splits)

text \<open>
  C8 (as amended). Let \<open>c\<close> be a candidate of the current list whose \<^verbatim>\<open>catalystName\<close> and
  (when layer-based) layer name contain no \<^verbatim>\<open>'-'\<close>, and such that every candidate of the
  list of the same shape with the same \<^verbatim>\<open>catalystName\<close> and layer name yields the same
  realm. Then the canonical string of the realm of \<open>c\<close> is \<^verbatim>\<open>"<catalystName>"\<close>
  (islands-based) or \<^verbatim>\<open>"<catalystName>-<layerName>"\<close> (layer-based), and parsing it gives
  that realm back. Parsing splits on every \<^verbatim>\<open>'-'\<close>: a string of exactly two parts is
  looked up as a layer-based realm, any other as an islands-based realm named as its first
  part.
\<close>

theorem realmString_roundtrip:
  assumes "c \<in> set candidates"
    and "CHR ''-'' \<notin> set (catalystName c)"
    and "case type c of LayerBased l \<Rightarrow> CHR ''-'' \<notin> set (name l) | IslandsBased n \<Rightarrow> True"
    and "\<forall>c' \<in> set candidates. sameName c c' \<longrightarrow> candidateToRealm c' = candidateToRealm c"
  shows
    "canonicalRealmString (candidateToRealm c) =
       (case type c of
          IslandsBased n \<Rightarrow> catalystName c
        | LayerBased l \<Rightarrow> catalystName c @ ''-'' @ name l) \<and>
     getRealmFromString (canonicalRealmString (candidateToRealm c)) candidates
       = Some (candidateToRealm c)"
proof -
  let ?s = "canonicalRealmString (candidateToRealm c)"
  have m: "matchesRealmString ?s c' \<longleftrightarrow> sameName c c'" for c'
    using assms(2,3) by (rule matchesRealmString_own)
  have "find (matchesRealmString ?s) candidates \<noteq> None"
    using assms(1) m sameName_refl by (auto simp: find_None_none)
  then obtain c' where f: "find (matchesRealmString ?s) candidates = Some c'"
    by blast
  then have "c' \<in> set candidates \<and> sameName c c'"
    using find_Some_first [OF f] m by simp
  then have "candidateToRealm c' = candidateToRealm c"
    using assms(4) by blast
  then show ?thesis
    using f by (simp add: getRealmFromString_find canonicalRealmString_candidate)
qed

theorem realmString_roundtrip_witness:
  "candA \<in> set [candA, candB, candC]
   \<and> canonicalRealmString (candidateToRealm candA) = ''a-L1''
   \<and> getRealmFromString ''a-L1'' [candA, candB, candC] = Some (candidateToRealm candA)
   \<and> candB \<in> set [candA, candB, candC]
   \<and> canonicalRealmString (candidateToRealm candB) = ''b''
   \<and> getRealmFromString ''b'' [candA, candB, candC] = Some (candidateToRealm candB)"
  using
    realmString_roundtrip [of candA "[candA, candB, candC]"]
    realmString_roundtrip [of candB "[candA, candB, candC]"]
  by (simp add: getRealmFromString_def realmForLayer_def realmFor_def canonicalRealmString_def
      candidateToRealm_def sameName_def
      candA_def candB_def candC_def buildLayerCandidate_def buildIslandsCandidate_def)

text \<open>
  C8 as stated fails. The realm of a layer-based candidate \<open>x\<close> with layer \<open>a-b\<close> has the
  string \<open>x-a-b\<close>, which splits into three parts and is looked up as an islands-based
  realm; the realm of an islands-based candidate \<open>my-realm\<close> has a string of two parts
  and is looked up as a layer-based realm; and of two islands-based candidates named \<open>b\<close>
  on different domains, the string of the second parses to the realm of the first.
\<close>

theorem realmString_roundtrip_counterexample:
  "candHyphenLayer \<in> set [candHyphenLayer]
   \<and> canonicalRealmString (candidateToRealm candHyphenLayer) = ''x-a-b''
   \<and> splitOn CHR ''-'' ''x-a-b'' = [''x'', ''a'', ''b'']
   \<and> getRealmFromString (canonicalRealmString (candidateToRealm candHyphenLayer)) [candHyphenLayer]
       = None
   \<and> canonicalRealmString (candidateToRealm candHyphenName) = ''my-realm''
   \<and> getRealmFromString (canonicalRealmString (candidateToRealm candHyphenName)) [candHyphenName]
       = None
   \<and> candB2 \<in> set [candB, candB2]
   \<and> canonicalRealmString (candidateToRealm candB2) = ''b''
   \<and> getRealmFromString (canonicalRealmString (candidateToRealm candB2)) [candB, candB2]
       = Some (candidateToRealm candB)
   \<and> candidateToRealm candB \<noteq> candidateToRealm candB2"
  by (simp add: getRealmFromString_def realmForLayer_def realmFor_def canonicalRealmString_def
      candidateToRealm_def
      candHyphenLayer_def candHyphenName_def candB_def candB2_def
      buildLayerCandidate_def buildIslandsCandidate_def)

section \<open>Properties of the realm change observer\<close>

lemma onStoreChange_currentRealm: "currentRealm (onStoreChange ob st) = getRealm st"
  by (simp add: onStoreChange_def Let_def split: option.splits)

lemma onStoreChange_calls:
  "onRealmChangeCalls (onStoreChange ob st) =
     onRealmChangeCalls ob @ structuralChanges (currentRealm ob) [getRealm st]"
  by (cases "getRealm st") (auto simp: onStoreChange_def deepEqual_def Let_def)

lemma onStoreChanges_calls_from:
  "onRealmChangeCalls (foldl onStoreChange ob sts) =
     onRealmChangeCalls ob @ structuralChanges (currentRealm ob) (map getRealm sts)"
proof (induction sts arbitrary: ob)
  case Nil
  then show ?case by simp
next
  case (Cons st sts)
  show ?case
    by (cases "getRealm st")
      (auto simp: Cons.IH onStoreChange_currentRealm onStoreChange_calls)
qed

text \<open>
  C7. At a notification the observer calls its listener with
  \<open>(previousRealm, currentRealm)\<close> exactly when the current realm is present and differs
  structurally from the value observed before; it makes no call when the realm is equal to
  the previous one, and none when the current realm is absent. Over a sequence of
  notifications the calls are, in order, exactly the structural changes of the observed
  realms, starting from the realm read at registration.
\<close>

theorem observeRealmChange_fires:
  "(let ob' = onStoreChange ob st
    in currentRealm ob' = getRealm st \<and>
       (\<forall>r. getRealm st = Some r \<and> Some r \<noteq> currentRealm ob \<longrightarrow>
          onRealmChangeCalls ob' = onRealmChangeCalls ob @ [(currentRealm ob, r)]) \<and>
       (getRealm st = currentRealm ob \<longrightarrow> onRealmChangeCalls ob' = onRealmChangeCalls ob) \<and>
       (getRealm st = None \<longrightarrow> onRealmChangeCalls ob' = onRealmChangeCalls ob)) \<and>
   onRealmChangeCalls (onStoreChanges (observeRealmChange store) sts) =
     structuralChanges (getRealm (getState store)) (map getRealm sts)"
proof -
  have "onRealmChangeCalls (onStoreChanges (observeRealmChange store) sts) =
     structuralChanges (getRealm (getState store)) (map getRealm sts)"
    by (simp add: onStoreChanges_def onStoreChanges_calls_from observeRealmChange_def)
  moreover have "getRealm st = currentRealm ob \<Longrightarrow>
      onRealmChangeCalls (onStoreChange ob st) = onRealmChangeCalls ob"
    by (cases "currentRealm ob") (simp_all add: onStoreChange_calls)
  ultimately show ?thesis
    by (auto simp: Let_def onStoreChange_currentRealm onStoreChange_calls)
qed

theorem observeRealmChange_fires_witness:
  "onRealmChangeCalls
     (onStoreChange \<lparr>currentRealm = None, onRealmChangeCalls = []\<rparr>
        (stateWithRealm (Some (candidateToRealm candB))))
     = [(None, candidateToRealm candB)]
   \<and> onRealmChangeCalls
       (onStoreChange \<lparr>currentRealm = Some (candidateToRealm candB), onRealmChangeCalls = []\<rparr>
          (stateWithRealm (Some (candidateToRealm candB))))
     = []
   \<and> onRealmChangeCalls
       (onStoreChange \<lparr>currentRealm = Some (candidateToRealm candB), onRealmChangeCalls = []\<rparr>
          (stateWithRealm None))
     = []
   \<and> onRealmChangeCalls
       (onStoreChanges (observeRealmChange exampleStore)
          [stateWithRealm None,
           stateWithRealm (Some (candidateToRealm candB)),
           stateWithRealm (Some (candidateToRealm candB)),
           stateWithRealm (Some (candidateToRealm candA)),
           stateWithRealm None,
           stateWithRealm (Some (candidateToRealm candA))])
     = [(None, candidateToRealm candB),
        (Some (candidateToRealm candB), candidateToRealm candA),
        (None, candidateToRealm candA)]"
  using
    observeRealmChange_fires [of "\<lparr>currentRealm = None, onRealmChangeCalls = []\<rparr>"
      "stateWithRealm (Some (candidateToRealm candB))" exampleStore
      "[stateWithRealm None,
        stateWithRealm (Some (candidateToRealm candB)),
        stateWithRealm (Some (candidateToRealm candB)),
        stateWithRealm (Some (candidateToRealm candA)),
        stateWithRealm None,
        stateWithRealm (Some (candidateToRealm candA))]"]
    observeRealmChange_fires [of
      "\<lparr>currentRealm = Some (candidateToRealm candB), onRealmChangeCalls = []\<rparr>"
      "stateWithRealm (Some (candidateToRealm candB))" exampleStore "[]"]
    observeRealmChange_fires [of
      "\<lparr>currentRealm = Some (candidateToRealm candB), onRealmChangeCalls = []\<rparr>"
      "stateWithRealm None" exampleStore "[]"]
  by (simp add: onStoreChange_def onStoreChanges_def observeRealmChange_def deepEqual_def
      Let_def stateWithRealm_def exampleStore_def candidateToRealm_def
      candA_def candB_def buildLayerCandidate_def buildIslandsCandidate_def)

section \<open>Properties of the crowded realm finder\<close>










section \<open>Properties of the status pinger\<close>

lemma resolve_resolved: "resolvedWith st = Some r \<Longrightarrow> resolve r' st = st"
  by (simp add: resolve_def)

lemma onreadystatechange_resolved:
  "resolvedWith st = Some r \<Longrightarrow> resolvedWith (onreadystatechange jsonParse st ev) = Some r"
  by (simp add: onreadystatechange_def resolve_def Let_def split: option.splits)

lemma events_resolved:
  "resolvedWith st = Some r \<Longrightarrow>
     resolvedWith (foldl (onreadystatechange jsonParse) st evs) = Some r"
  by (induction evs arbitrary: st) (simp_all add: onreadystatechange_resolved)

lemma ping_never_rejects: "ping jsonParse run \<noteq> Rejected reason"
  by (simp add: ping_def Let_def split: option.splits)

text \<open>
  The request goes its usual way: \<^verbatim>\<open>open\<close> fires the event to \<^verbatim>\<open>OPENED\<close>, \<^verbatim>\<open>send\<close>
  does not throw, events of loading follow and then the event to \<^verbatim>\<open>DONE\<close>. The future
  is resolved as the response says.
\<close>

lemma loading_events:
  assumes "\<forall>e \<in> set evs. readyState e \<noteq> OPENED \<and> readyState e \<noteq> DONE"
  shows "foldl (onreadystatechange jsonParse) st evs = st"
  using assms by (induction evs arbitrary: st) (simp_all add: onreadystatechange_def)

lemma ping_done:
  assumes "openEvents run = Some [opened]" "readyState opened = OPENED"
    and "\<not> sendThrows run"
    and "laterEvents run = loading @ done # after"
    and "\<forall>e \<in> set loading. readyState e \<noteq> OPENED \<and> readyState e \<noteq> DONE"
    and "readyState done = DONE"
  shows "ping jsonParse run =
     Resolved
       (if httpStatus done \<noteq> 200 then unreachableResult
        else case jsonParse (responseText done) of
               None \<Rightarrow> emptyResult
             | Some payload \<Rightarrow>
                 \<lparr>pingStatus = Some OK, pingElapsed = Some (clock done - clock opened),
                  pingPayload = Some payload\<rparr>)"
proof -
  let ?h = "onreadystatechange jsonParse"
  let ?st1 = "\<lparr>started = Some (clock opened), resolvedWith = None\<rparr> :: 'a PingState"
  let ?r = "if httpStatus done \<noteq> 200 then unreachableResult
        else case jsonParse (responseText done) of
               None \<Rightarrow> emptyResult
             | Some payload \<Rightarrow>
                 \<lparr>pingStatus = Some OK, pingElapsed = Some (clock done - clock opened),
                  pingPayload = Some payload\<rparr>"
  have o: "foldl ?h \<lparr>started = None, resolvedWith = None\<rparr> [opened] = ?st1"
    using assms(2) by (simp add: onreadystatechange_def)
  have l: "foldl ?h ?st1 loading = ?st1"
    using assms(5) by (rule loading_events)
  have d: "resolvedWith (?h ?st1 done) = Some ?r"
    using assms(6) by (simp add: onreadystatechange_def resolve_def Let_def split: option.splits)
  have "resolvedWith (foldl ?h ?st1 (loading @ done # after)) = Some ?r"
    using events_resolved [OF d, of jsonParse after] by (simp add: l)
  then show ?thesis
    using assms(1,3,4) o by (simp add: ping_def Let_def)
qed

lemma ping_send_throws:
  assumes "openEvents run = Some evs" "\<forall>e \<in> set evs. readyState e \<noteq> DONE" "sendThrows run"
  shows "ping jsonParse run = Resolved unreachableResult"
proof -
  let ?h = "onreadystatechange jsonParse"
  have "resolvedWith (foldl ?h st evs) = resolvedWith st" for st :: "'a PingState"
    using assms(2)
    by (induction evs arbitrary: st) (simp_all add: onreadystatechange_def)
  then have "resolvedWith (foldl ?h \<lparr>started = None, resolvedWith = None\<rparr> evs) = None"
    by simp
  then have "resolvedWith
      (resolve unreachableResult (foldl ?h \<lparr>started = None, resolvedWith = None\<rparr> evs))
      = Some unreachableResult"
    by (simp add: resolve_def)
  from events_resolved [OF this, of jsonParse "laterEvents run"] show ?thesis
    using assms(1,3) by (simp add: ping_def Let_def)
qed

lemma ping_examples:
  "ping exampleParse
     \<lparr>openEvents = Some [\<lparr>readyState = OPENED, clock = 1000, httpStatus = 0, responseText = []\<rparr>],
      sendThrows = False,
      laterEvents =
        [\<lparr>readyState = HEADERS_RECEIVED, clock = 1030, httpStatus = 200, responseText = []\<rparr>,
         \<lparr>readyState = LOADING, clock = 1040, httpStatus = 200, responseText = ''{''\<rparr>,
         \<lparr>readyState = DONE, clock = 1042, httpStatus = 200, responseText = ''{}''\<rparr>]\<rparr>
     = Resolved \<lparr>pingStatus = Some OK, pingElapsed = Some 42, pingPayload = Some ''{}''\<rparr>
   \<and> ping exampleParse
     \<lparr>openEvents = Some [\<lparr>readyState = OPENED, clock = 1000, httpStatus = 0, responseText = []\<rparr>],
      sendThrows = False,
      laterEvents =
        [\<lparr>readyState = DONE, clock = 1042, httpStatus = 200, responseText = ''<html>''\<rparr>]\<rparr>
     = Resolved emptyResult
   \<and> ping exampleParse
     \<lparr>openEvents = Some [\<lparr>readyState = OPENED, clock = 1000, httpStatus = 0, responseText = []\<rparr>],
      sendThrows = False,
      laterEvents =
        [\<lparr>readyState = DONE, clock = 6000, httpStatus = 0, responseText = []\<rparr>]\<rparr>
     = Resolved unreachableResult"
  by (simp add: ping_def onreadystatechange_def resolve_def exampleParse_def
      emptyResult_def unreachableResult_def Let_def)

text \<open>
  C9 (the code diverges). When \<^verbatim>\<open>http.open\<close> throws, the future that \<open>ping\<close> returned
  stays pending whatever else happens: the call neither resolves nor rejects, where the
  claim has \<open>ping\<close> always resolve. When \<^verbatim>\<open>http.send\<close> throws instead, the code does
  resolve with \<^verbatim>\<open>{status: UNREACHABLE}\<close>.
\<close>

theorem ping_open_throws_pending:
  "ping jsonParse \<lparr>openEvents = None, sendThrows = s, laterEvents = evs\<rparr> = Pending
   \<and> ping jsonParse
       \<lparr>openEvents = Some [\<lparr>readyState = OPENED, clock = t, httpStatus = 0, responseText = []\<rparr>],
        sendThrows = True, laterEvents = evs\<rparr>
     = Resolved unreachableResult"
proof -
  have "ping jsonParse
       \<lparr>openEvents = Some [\<lparr>readyState = OPENED, clock = t, httpStatus = 0, responseText = []\<rparr>],
        sendThrows = True, laterEvents = evs\<rparr>
     = Resolved unreachableResult"
    by (rule ping_send_throws
        [where evs = "[\<lparr>readyState = OPENED, clock = t, httpStatus = 0, responseText = []\<rparr>]"])
      auto
  then show ?thesis
    by (simp add: ping_def)
qed

end
